theory Spec2Isabelle
  imports Complex_Main
begin

section \<open>Data model\<close>

text \<open>
  Instants are JavaScript epoch milliseconds. A Firestore Timestamp made by
  \<open>Timestamp.fromDate\<close> and read back by \<open>toDate\<close> is the same millisecond,
  so one type serves for both. JavaScript numbers that carry coordinates, face
  descriptors and hours are idealised as reals.
\<close>

type_synonym instant = int

record employee =
  email :: string
  faceDescriptor :: "real list option"
  hireDate :: "instant option"
  emp_createdAt :: "instant option"

text \<open>
  A document of the attendance collection. A field that the document does not
  have is \<open>None\<close>; a Timestamp object is always truthy, so \<open>!data.exitTime\<close>
  is \<open>exitTime a = None\<close>.
\<close>

record attendance =
  employeeId :: string
  entryTime :: "instant option"
  exitTime :: "instant option"
  location :: "real list"
  exitLocation :: "real list option"
  att_method :: string
  createdAt :: instant
  updatedAt :: "instant option"

text \<open>What \<open>sendEmailAndNotify\<close> is called with: recipient, subject, and the
  \<open>type\<close> of the metadata object when one is passed.\<close>

record notification =
  recipient :: string
  subject :: string
  kind :: "string option"

text \<open>
  The store: the employees collection (document id and data), the attendance
  collection, and the notifications handed to the mailer so far. The id of an
  attendance document is its position in the list: \<open>add\<close> appends, nothing is
  ever deleted.
\<close>

record world =
  employees :: "(string \<times> employee) list"
  attendanceDocs :: "attendance list"
  outbox :: "notification list"

text \<open>The object encoded in a QR code (\<open>generateQrCode\<close>), as \<open>JSON.parse\<close>
  returns it: \<open>employeeId\<close> is \<open>None\<close> when it is absent or not a string;
  \<open>timestamp\<close> and \<open>expiresAt\<close> are \<open>None\<close> when they are absent. A
  timestamp of another JSON type (which JavaScript would coerce to a number in the
  subtraction) and a payload that parses to something else than an object are not
  represented.\<close>

record qr_payload =
  qr_employeeId :: "string option"
  qr_timestamp :: "instant option"
  qr_expiresAt :: "instant option"

text \<open>The \<open>qrData\<close> string of a scan request, by what the handler can tell of it:
  empty, a string on which \<open>JSON.parse\<close> throws, or the object it parses to.\<close>

datatype qr_data = EmptyString | Unparseable | Parsed qr_payload

text \<open>\<open>req.user\<close>, set by the authentication middleware of every attendance route.\<close>

record requester =
  uid :: string
  urole :: string

text \<open>
  \<open>req\<close> of the attendance routes: the authenticated user and the body fields
  the handlers destructure. A time field is \<open>None\<close> when it is missing or not
  an ISO-8601 date.
\<close>

record request =
  user :: requester
  body_employeeId :: string
  body_entryTime :: "instant option"
  body_exitTime :: "instant option"
  coordinates :: "real list"
  body_method :: string
  qrData :: qr_data
  faceTemplate :: "real list"

text \<open>
  What a handler takes from outside the repository: the clock and the local-time
  methods of \<open>Date\<close>, the process configuration, and the behaviour of the two
  query shapes the handlers issue, by employee alone and by employee and
  entry-time range (\<open>None\<close> when the query returns, \<open>Some msg\<close> when it throws
  an error with message \<open>msg\<close>). Reads of one document by id and writes are
  taken to succeed.
\<close>

record env =
  now :: instant
  getHours :: "instant \<Rightarrow> int"
  setHours :: "int \<Rightarrow> int \<Rightarrow> int \<Rightarrow> int \<Rightarrow> instant \<Rightarrow> instant"
  getDate :: "instant \<Rightarrow> int"
  setDate :: "int \<Rightarrow> instant \<Rightarrow> instant"
  getMonth :: "instant \<Rightarrow> int"
  setMonth :: "int \<Rightarrow> instant \<Rightarrow> instant"
  allowedLng :: real
  allowedLat :: real
  allowedRadius :: real
  eq_query_error :: "string option"
  range_query_error :: "string option"

text \<open>\<open>Infinity\<close> is what \<open>calculateDistance\<close> returns for descriptors of
  different lengths; the confidence computed from it is \<open>-Infinity\<close>.\<close>

datatype distance = Finite real | Infinity

datatype confidence = Percent real | MinusInfinity

text \<open>The responses that are not successes, by the message the handler sends.\<close>

datatype failure =
    ValidationErrors
  | InvalidQrDataFormat
  | InvalidEmployeeIdInQr
  | AuthenticationFailed
  | AccessDenied
  | EmployeeNotFound
  | OpenAttendanceExists
  | ExpiredQrCode
  | FaceNotRegistered
  | FaceNotRecognized confidence
  | OutsideAllowedArea
  | NoEntryAttendance
  | ExitNotAfterEntry
  | DatabaseIndexRequired string
  | ServerError string

fun http_status :: "failure \<Rightarrow> nat" where
  "http_status ValidationErrors = 400"
| "http_status InvalidQrDataFormat = 400"
| "http_status InvalidEmployeeIdInQr = 400"
| "http_status AuthenticationFailed = 401"
| "http_status AccessDenied = 403"
| "http_status EmployeeNotFound = 404"
| "http_status OpenAttendanceExists = 400"
| "http_status ExpiredQrCode = 401"
| "http_status FaceNotRegistered = 400"
| "http_status (FaceNotRecognized c) = 400"
| "http_status OutsideAllowedArea = 400"
| "http_status NoEntryAttendance = 400"
| "http_status ExitNotAfterEntry = 400"
| "http_status (DatabaseIndexRequired m) = 500"
| "http_status (ServerError m) = 500"

section \<open>Store queries\<close>

text \<open>\<open>collection(ATTENDANCE).where("employeeId", "==", e).get()\<close>: the documents
  with their ids.\<close>

definition queryByEmployee :: "world \<Rightarrow> string \<Rightarrow> (nat \<times> attendance) list" where
  "queryByEmployee w e =
     filter (\<lambda>(i, a). employeeId a = e) (enumerate 0 (attendanceDocs w))"

text \<open>The same with \<open>where("entryTime", ">=", s).where("entryTime", "<=", t)\<close>; a
  document without the field does not match a range filter.\<close>

definition inWindow :: "instant \<Rightarrow> instant \<Rightarrow> attendance \<Rightarrow> bool" where
  "inWindow s t a = (case entryTime a of None \<Rightarrow> False | Some x \<Rightarrow> s \<le> x \<and> x \<le> t)"

definition queryByEmployeeInRange ::
  "world \<Rightarrow> string \<Rightarrow> instant \<Rightarrow> instant \<Rightarrow> (nat \<times> attendance) list" where
  "queryByEmployeeInRange w e s t =
     filter (\<lambda>(i, a). employeeId a = e \<and> inWindow s t a) (enumerate 0 (attendanceDocs w))"

text \<open>\<open>collection(ATTENDANCE).add(data)\<close> followed by \<open>get\<close> of the new reference.\<close>

definition addAttendance :: "world \<Rightarrow> attendance \<Rightarrow> (nat \<times> attendance) \<times> world" where
  "addAttendance w a =
     ((length (attendanceDocs w), a), w\<lparr>attendanceDocs := attendanceDocs w @ [a]\<rparr>)"

definition sendEmailAndNotify :: "world \<Rightarrow> string \<Rightarrow> string \<Rightarrow> string option \<Rightarrow> world" where
  "sendEmailAndNotify w r s k =
     w\<lparr>outbox := outbox w @ [\<lparr>recipient = r, subject = s, kind = k\<rparr>]\<rparr>"

text \<open>\<open>message.includes(pat)\<close>.\<close>

fun includes_str :: "string \<Rightarrow> string \<Rightarrow> bool" where
  "includes_str [] pat = (pat = [])"
| "includes_str (c # cs) pat = (take (length pat) (c # cs) = pat \<or> includes_str cs pat)"

section \<open>Checks shared by the entry handlers\<close>

definition isValidFirebaseId :: "string option \<Rightarrow> bool" where
  "isValidFirebaseId i = (case i of None \<Rightarrow> False | Some s \<Rightarrow> length s > 0)"

text \<open>The planar distance in metres from the allowed location, as each entry handler
  computes it from \<open>location.coordinates\<close>.\<close>

definition locationDistance :: "env \<Rightarrow> real list \<Rightarrow> real" where
  "locationDistance env cs =
     sqrt ((cs ! 0 - allowedLng env)\<^sup>2 + (cs ! 1 - allowedLat env)\<^sup>2) * 111000"

definition authorized :: "requester \<Rightarrow> string \<Rightarrow> bool" where
  "authorized u e = (\<not> (uid u \<noteq> e \<and> urole u \<noteq> ''admin''))"

text \<open>The \<open>attendanceData\<close> object an entry handler adds to the collection.\<close>

definition attendanceData ::
  "env \<Rightarrow> string \<Rightarrow> instant \<Rightarrow> real list \<Rightarrow> string \<Rightarrow> attendance" where
  "attendanceData env e t cs m =
     \<lparr>employeeId = e, entryTime = Some t, exitTime = None, location = cs,
      exitLocation = None, att_method = m, createdAt = now env, updatedAt = None\<rparr>"

text \<open>The tail every entry handler shares once its own checks have passed: the
  location check with its notification, the late-arrival notification, and the
  creation of the record.\<close>

definition locateAndCreate ::
  "env \<Rightarrow> world \<Rightarrow> employee \<Rightarrow> string \<Rightarrow> instant \<Rightarrow> real list \<Rightarrow> string
     \<Rightarrow> (failure + (nat \<times> attendance)) \<times> world" where
  "locateAndCreate env w emp e t cs m =
     (if locationDistance env cs > allowedRadius env
      then (Inl OutsideAllowedArea,
            sendEmailAndNotify w (email emp) ''Unauthorized Location Attempt'' (Some ''location_issue''))
      else
        let w1 = (if getHours env t \<ge> 9
                  then sendEmailAndNotify w (email emp) ''Late Attendance Notification'' (Some ''late_arrival'')
                  else w);
            (doc, w2) = addAttendance w1 (attendanceData env e t cs m)
        in (Inr doc, w2))"

section \<open>recordAttendance\<close>

definition validateRecordAttendance :: "request \<Rightarrow> bool" where
  "validateRecordAttendance req =
     (body_employeeId req \<noteq> [] \<and> body_entryTime req \<noteq> None \<and>
      length (coordinates req) = 2 \<and>
      body_method req \<in> set [''manual'', ''qr'', ''facial''])"

definition hasOpenAttendance :: "(nat \<times> attendance) list \<Rightarrow> bool" where
  "hasOpenAttendance docs = list_ex (\<lambda>(i, a). exitTime a = None) docs"

definition recordAttendance ::
  "env \<Rightarrow> request \<Rightarrow> world \<Rightarrow> (failure + (nat \<times> attendance)) \<times> world" where
  "recordAttendance env req w =
     (if \<not> validateRecordAttendance req then (Inl ValidationErrors, w)
      else case body_entryTime req of
        None \<Rightarrow> (Inl ValidationErrors, w)
      | Some t \<Rightarrow>
        (case map_of (employees w) (body_employeeId req) of
           None \<Rightarrow> (Inl EmployeeNotFound, w)
         | Some emp \<Rightarrow>
           if \<not> authorized (user req) (body_employeeId req) then (Inl AccessDenied, w)
           else if eq_query_error env = None \<and>
                   hasOpenAttendance (queryByEmployee w (body_employeeId req))
           then (Inl OpenAttendanceExists, w)
           else locateAndCreate env w emp (body_employeeId req) t (coordinates req)
                  (body_method req)))"

section \<open>generateQrCode and scanQrCode\<close>

text \<open>The object \<open>generateQrCode\<close> stringifies into the QR image, once the employee
  is found and the requester is authorised.\<close>

definition generateQrCode :: "env \<Rightarrow> requester \<Rightarrow> string \<Rightarrow> world \<Rightarrow> failure + qr_payload" where
  "generateQrCode env u e w =
     (if e = [] then Inl ValidationErrors
      else case map_of (employees w) e of
        None \<Rightarrow> Inl EmployeeNotFound
      | Some emp \<Rightarrow>
        if \<not> authorized u e then Inl AccessDenied
        else Inr \<lparr>qr_employeeId = Some e, qr_timestamp = Some (now env),
                  qr_expiresAt = Some (now env + 12 * 60 * 60 * 1000)\<rparr>)"

definition validateScanQr :: "request \<Rightarrow> bool" where
  "validateScanQr req =
     (qrData req \<noteq> EmptyString \<and> body_entryTime req \<noteq> None \<and> length (coordinates req) = 2)"

text \<open>\<open>Date.now() - timestamp > 5 * 60 * 1000\<close>; with \<open>timestamp\<close> undefined the
  difference is \<open>NaN\<close> and the comparison is false.\<close>

definition qrExpired :: "env \<Rightarrow> instant option \<Rightarrow> bool" where
  "qrExpired env ts = (case ts of None \<Rightarrow> False | Some t \<Rightarrow> now env - t > 5 * 60 * 1000)"

definition scanQrCode ::
  "env \<Rightarrow> request \<Rightarrow> world \<Rightarrow> (failure + (nat \<times> attendance)) \<times> world" where
  "scanQrCode env req w =
     (if \<not> validateScanQr req then (Inl ValidationErrors, w)
      else case body_entryTime req of
        None \<Rightarrow> (Inl ValidationErrors, w)
      | Some t \<Rightarrow>
        (case qrData req of
           EmptyString \<Rightarrow> (Inl ValidationErrors, w)
         | Unparseable \<Rightarrow> (Inl InvalidQrDataFormat, w)
         | Parsed parsedData \<Rightarrow>
           (case qr_employeeId parsedData of
              None \<Rightarrow> (Inl InvalidEmployeeIdInQr, w)
            | Some e \<Rightarrow>
              if \<not> isValidFirebaseId (Some e) then (Inl InvalidEmployeeIdInQr, w)
              else if \<not> authorized (user req) e then (Inl AccessDenied, w)
              else (case map_of (employees w) e of
                None \<Rightarrow> (Inl EmployeeNotFound, w)
              | Some emp \<Rightarrow>
                if qrExpired env (qr_timestamp parsedData)
                then (Inl ExpiredQrCode,
                      sendEmailAndNotify w (email emp) ''Expired QR Code Attempt'' (Some ''expired_qr''))
                else locateAndCreate env w emp e t (coordinates req) ''qr''))))"

section \<open>calculateDistance and facialAttendance\<close>

definition calculateDistance :: "real list \<Rightarrow> real list \<Rightarrow> distance" where
  "calculateDistance descriptor1 descriptor2 =
     (if length descriptor1 \<noteq> length descriptor2 then Infinity
      else Finite (sqrt (foldl (\<lambda>sum (val, b). sum + (val - b)\<^sup>2) 0
                           (zip descriptor1 descriptor2))))"

text \<open>\<open>distance >= 0.6\<close> and \<open>(100 - distance * 100).toFixed(1)\<close>. \<open>toFixed(1)\<close>
  takes the nearest tenth of the magnitude, the larger one at a tie, and keeps
  the sign.\<close>

definition notRecognized :: "distance \<Rightarrow> bool" where
  "notRecognized d = (case d of Infinity \<Rightarrow> True | Finite x \<Rightarrow> x \<ge> 6 / 10)"

definition toFixed1 :: "real \<Rightarrow> real" where
  "toFixed1 x =
     (if x < 0 then - (of_int \<lfloor>- x * 10 + 1 / 2\<rfloor> / 10)
      else of_int \<lfloor>x * 10 + 1 / 2\<rfloor> / 10)"

definition reportedConfidence :: "distance \<Rightarrow> confidence" where
  "reportedConfidence d =
     (case d of Infinity \<Rightarrow> MinusInfinity | Finite x \<Rightarrow> Percent (toFixed1 (100 - x * 100)))"

definition validateFacialAttendance :: "request \<Rightarrow> bool" where
  "validateFacialAttendance req =
     (body_employeeId req \<noteq> [] \<and> length (faceTemplate req) = 128 \<and>
      body_entryTime req \<noteq> None \<and> length (coordinates req) = 2)"

definition facialAttendance ::
  "env \<Rightarrow> request \<Rightarrow> world \<Rightarrow> (failure + (nat \<times> attendance)) \<times> world" where
  "facialAttendance env req w =
     (if \<not> validateFacialAttendance req then (Inl ValidationErrors, w)
      else case body_entryTime req of
        None \<Rightarrow> (Inl ValidationErrors, w)
      | Some t \<Rightarrow>
        if uid (user req) = [] then (Inl AuthenticationFailed, w)
        else (case map_of (employees w) (body_employeeId req) of
          None \<Rightarrow> (Inl EmployeeNotFound, w)
        | Some emp \<Rightarrow>
          (case faceDescriptor emp of
             None \<Rightarrow> (Inl FaceNotRegistered, w)
           | Some stored \<Rightarrow>
             let dist = calculateDistance (faceTemplate req) stored in
             if notRecognized dist then (Inl (FaceNotRecognized (reportedConfidence dist)), w)
             else if \<not> authorized (user req) (body_employeeId req) then (Inl AccessDenied, w)
             else locateAndCreate env w emp (body_employeeId req) t (coordinates req)
                    ''facial'')))"

section \<open>recordExit\<close>

text \<open>The validators of the exit route. The route mounts them a second time, on the
  date already converted; that pass refuses no request with an exit instant in the
  years 0000 to 9999.\<close>

definition validateExitAttendance :: "request \<Rightarrow> bool" where
  "validateExitAttendance req =
     (body_employeeId req \<noteq> [] \<and> body_exitTime req \<noteq> None \<and> length (coordinates req) = 2)"

text \<open>
  The composite query by employee and entry-time range and, when it throws an
  error whose message includes \<open>index\<close>, the query by employee alone in its
  place. Any other error, and an error of the second query, is rethrown to the
  handler's outer \<open>catch\<close>. \<open>recordExit\<close> and \<open>getAllPresenceReports\<close> both
  fetch this way.
\<close>

definition queryWithFallback ::
  "env \<Rightarrow> world \<Rightarrow> string \<Rightarrow> instant \<Rightarrow> instant \<Rightarrow> failure + (nat \<times> attendance) list" where
  "queryWithFallback env w e s t =
     (case range_query_error env of
        None \<Rightarrow> Inr (queryByEmployeeInRange w e s t)
      | Some msg \<Rightarrow>
        if includes_str msg ''index''
        then (case eq_query_error env of
                None \<Rightarrow> Inr (queryByEmployee w e)
              | Some msg2 \<Rightarrow> Inl (ServerError msg2))
        else Inl (ServerError msg))"

text \<open>\<open>a.data().entryTime?.toDate?.() || new Date(0)\<close>, and the in-memory sort by it,
  latest first (\<open>Array.prototype.sort\<close> is stable).\<close>

definition entryMillis :: "attendance \<Rightarrow> instant" where
  "entryMillis a = (case entryTime a of None \<Rightarrow> 0 | Some t \<Rightarrow> t)"

definition sortByEntryDesc :: "(nat \<times> attendance) list \<Rightarrow> (nat \<times> attendance) list" where
  "sortByEntryDesc docs = sort_key (\<lambda>(i, a). - entryMillis a) docs"

text \<open>The first document without \<open>exitTime\<close> among those of the last and next thirty
  days (of all the employee's documents after the fallback).\<close>

definition findOpenAttendance ::
  "env \<Rightarrow> world \<Rightarrow> string \<Rightarrow> failure + (nat \<times> attendance) option" where
  "findOpenAttendance env w e =
     (case queryWithFallback env w e (now env - 30 * 24 * 60 * 60 * 1000)
                                      (now env + 30 * 24 * 60 * 60 * 1000) of
        Inl err \<Rightarrow> Inl err
      | Inr snapshot \<Rightarrow> Inr (find (\<lambda>(i, a). exitTime a = None) (sortByEntryDesc snapshot)))"

definition recordExit ::
  "env \<Rightarrow> request \<Rightarrow> world \<Rightarrow> (failure + (nat \<times> attendance)) \<times> world" where
  "recordExit env req w =
     (if \<not> validateExitAttendance req then (Inl ValidationErrors, w)
      else case body_exitTime req of
        None \<Rightarrow> (Inl ValidationErrors, w)
      | Some exitDateTime \<Rightarrow>
        (case map_of (employees w) (body_employeeId req) of
           None \<Rightarrow> (Inl EmployeeNotFound, w)
         | Some emp \<Rightarrow>
           (case findOpenAttendance env w (body_employeeId req) of
              Inl err \<Rightarrow> (Inl err, w)
            | Inr None \<Rightarrow> (Inl NoEntryAttendance, w)
            | Inr (Some (existingAttendanceId, existingAttendance)) \<Rightarrow>
              (case entryTime existingAttendance of
                 None \<Rightarrow>
                   (Inl (ServerError ''Cannot read properties of undefined''), w)
               | Some entryDateTime \<Rightarrow>
                 if exitDateTime \<le> entryDateTime then (Inl ExitNotAfterEntry, w)
                 else
                   let updated = existingAttendance
                         \<lparr>exitTime := Some exitDateTime,
                          exitLocation := Some (coordinates req),
                          updatedAt := Some (now env)\<rparr>;
                       w1 = w\<lparr>attendanceDocs :=
                                (attendanceDocs w)[existingAttendanceId := updated]\<rparr>
                   in (Inr (existingAttendanceId, updated),
                       sendEmailAndNotify w1 (body_employeeId req) ''Exit Recorded'' None)))))"

section \<open>Presence reports\<close>

record report =
  report_employeeId :: string
  report_period :: string
  report_startDate :: "instant option"
  report_endDate :: "instant option"
  totalDays :: nat
  totalHours :: real
  lateDays :: nat

text \<open>The body of the \<open>forEach\<close> over the fetched records, the same in both report
  handlers.\<close>

definition tally :: "env \<Rightarrow> report \<Rightarrow> attendance \<Rightarrow> report" where
  "tally env r a =
     (case entryTime a of
        None \<Rightarrow> r
      | Some entryDate \<Rightarrow>
        let r1 = r\<lparr>totalDays := totalDays r + 1\<rparr>;
            r2 = (if getHours env entryDate \<ge> 9 then r1\<lparr>lateDays := lateDays r1 + 1\<rparr> else r1)
        in (case exitTime a of
             None \<Rightarrow> r2
           | Some exitDate \<Rightarrow>
               r2\<lparr>totalHours := totalHours r2 + real_of_int (exitDate - entryDate) / (1000 * 60 * 60)\<rparr>))"

definition buildReport ::
  "env \<Rightarrow> string \<Rightarrow> string \<Rightarrow> instant option \<Rightarrow> instant option \<Rightarrow> attendance list \<Rightarrow> report" where
  "buildReport env e p s t records =
     foldl (tally env)
       \<lparr>report_employeeId = e, report_period = p, report_startDate = s, report_endDate = t,
        totalDays = 0, totalHours = 0, lateDays = 0\<rparr>
       records"

text \<open>A date of the query string of \<open>getPresenceReport\<close>, which validates it.\<close>

datatype date_param = Missing | Malformed | Date instant

record report_request =
  param_employeeId :: string
  period :: string
  startDate :: date_param
  endDate :: date_param

definition validateReport :: "report_request \<Rightarrow> bool" where
  "validateReport q =
     (param_employeeId q \<noteq> [] \<and> period q \<in> set [''daily'', ''weekly'', ''monthly''] \<and>
      (case startDate q of Date d \<Rightarrow> True | _ \<Rightarrow> False) \<and> endDate q \<noteq> Malformed)"

text \<open>The window of a period that starts at \<open>sd\<close>; \<open>None\<close> when the period is
  neither weekly nor monthly and no end date is given.\<close>

definition periodWindow ::
  "env \<Rightarrow> string \<Rightarrow> instant \<Rightarrow> instant option \<Rightarrow> (instant \<times> instant) option" where
  "periodWindow env p sd ed =
     (if p = ''weekly''
      then let start = setHours env 0 0 0 0 sd
           in Some (start, setDate env (getDate env start + 7) start)
      else if p = ''monthly''
      then let start = setDate env 1 (setHours env 0 0 0 0 sd)
           in Some (start, setMonth env (getMonth env start + 1) start)
      else case ed of None \<Rightarrow> None | Some e \<Rightarrow> Some (sd, e))"

definition getPresenceReport :: "env \<Rightarrow> report_request \<Rightarrow> world \<Rightarrow> failure + report" where
  "getPresenceReport env q w =
     (if \<not> validateReport q then Inl ValidationErrors
      else case startDate q of
        Missing \<Rightarrow> Inl ValidationErrors
      | Malformed \<Rightarrow> Inl ValidationErrors
      | Date sd \<Rightarrow>
        (case map_of (employees w) (param_employeeId q) of
           None \<Rightarrow> Inl EmployeeNotFound
         | Some emp \<Rightarrow>
           (case periodWindow env (period q) sd
                   (case endDate q of Date e \<Rightarrow> Some e | _ \<Rightarrow> None) of
              Some (start, finish) \<Rightarrow>
                (case range_query_error env of
                   None \<Rightarrow>
                     Inr (buildReport env (param_employeeId q) (period q) (Some start) (Some finish)
                            (map snd (queryByEmployeeInRange w (param_employeeId q) start finish)))
                 | Some msg \<Rightarrow>
                     if includes_str msg ''index'' then Inl (DatabaseIndexRequired msg)
                     else Inl (ServerError msg))
            | None \<Rightarrow>
                (case eq_query_error env of
                   None \<Rightarrow>
                     Inr (buildReport env (param_employeeId q) (period q) None None
                            (map snd (queryByEmployee w (param_employeeId q))))
                 | Some msg \<Rightarrow> Inl (ServerError msg)))))"

text \<open>
  The query string of \<open>getAllPresenceReports\<close>, which is not validated: a
  parameter that is absent or empty is falsy (\<open>[]\<close>, \<open>None\<close>), and a date that is
  present is taken to parse.
\<close>

record reports_request =
  all_period :: string
  all_startDate :: "instant option"
  all_endDate :: "instant option"

definition employeeWindow ::
  "env \<Rightarrow> reports_request \<Rightarrow> employee \<Rightarrow> (instant \<times> instant) option" where
  "employeeWindow env q emp =
     (if all_period q = [] \<and> all_startDate q = None \<and> all_endDate q = None
      then (case (case hireDate emp of Some h \<Rightarrow> Some h | None \<Rightarrow> emp_createdAt emp) of
              None \<Rightarrow> None
            | Some h \<Rightarrow> Some (setHours env 0 0 0 0 h, setHours env 23 59 59 999 (now env)))
      else case all_startDate q of
        None \<Rightarrow> None
      | Some sd \<Rightarrow> periodWindow env (all_period q) sd (all_endDate q))"

text \<open>The period and the start and end dates written into a report
  (\<open>reportPeriod\<close>, \<open>reportStartDate\<close>, \<open>reportEndDate\<close>), given the window
  of the employee: with no parameter at all, the hire date and today.\<close>

definition reportPeriod :: "reports_request \<Rightarrow> string" where
  "reportPeriod q = (if all_period q = [] then ''all-time'' else all_period q)"

definition reportDates ::
  "env \<Rightarrow> reports_request \<Rightarrow> employee \<Rightarrow> (instant \<times> instant) option
     \<Rightarrow> instant option \<times> instant option" where
  "reportDates env q emp window =
     (if all_period q = [] \<and> all_startDate q = None \<and> all_endDate q = None
      then (case (case hireDate emp of Some h \<Rightarrow> Some h | None \<Rightarrow> emp_createdAt emp) of
              None \<Rightarrow> (None, None)
            | Some h \<Rightarrow> (Some h, Some (now env)))
      else case window of
        Some (start, finish) \<Rightarrow> (Some start, Some finish)
      | None \<Rightarrow> (all_startDate q, all_endDate q))"

definition employeeReport ::
  "env \<Rightarrow> reports_request \<Rightarrow> world \<Rightarrow> string \<times> employee \<Rightarrow> failure + report" where
  "employeeReport env q w ie =
     (let (eid, emp) = ie;
          window = employeeWindow env q emp;
          fetched = (case window of
                       Some (start, finish) \<Rightarrow> queryWithFallback env w eid start finish
                     | None \<Rightarrow>
                         (case eq_query_error env of
                            None \<Rightarrow> Inr (queryByEmployee w eid)
                          | Some msg \<Rightarrow> Inl (ServerError msg)));
          (reportStartDate, reportEndDate) = reportDates env q emp window
      in case fetched of
           Inl err \<Rightarrow> Inl err
         | Inr docs \<Rightarrow>
             Inr (buildReport env eid (reportPeriod q) reportStartDate reportEndDate
                    (map snd docs)))"

text \<open>The loop over the employees: an error thrown for one employee ends the whole
  request.\<close>

fun forEmployees :: "('a \<Rightarrow> failure + report) \<Rightarrow> 'a list \<Rightarrow> failure + report list" where
  "forEmployees f [] = Inr []"
| "forEmployees f (x # xs) =
     (case f x of
        Inl err \<Rightarrow> Inl err
      | Inr r \<Rightarrow> (case forEmployees f xs of Inl err \<Rightarrow> Inl err | Inr rs \<Rightarrow> Inr (r # rs)))"

definition getAllPresenceReports ::
  "env \<Rightarrow> reports_request \<Rightarrow> world \<Rightarrow> failure + report list" where
  "getAllPresenceReports env q w = forEmployees (employeeReport env q w) (employees w)"

section \<open>A server whose local time is UTC\<close>

text \<open>
  The local-time methods of \<open>Date\<close> for a process in the UTC zone, over the
  proleptic Gregorian calendar: \<open>civil_from_days\<close> gives year, month (from 1)
  and day of the month of a day number counted from 1970-01-01, and
  \<open>days_from_civil\<close> is its inverse, which also accepts a day beyond the end
  of the month, as \<open>setDate\<close> and \<open>setMonth\<close> do.
\<close>

definition civil_from_days :: "int \<Rightarrow> int \<times> int \<times> int" where
  "civil_from_days z0 =
     (let z = z0 + 719468;
          era = z div 146097;
          doe = z mod 146097;
          yoe = (doe - doe div 1460 + doe div 36524 - doe div 146096) div 365;
          doy = doe - (365 * yoe + yoe div 4 - yoe div 100);
          mp = (5 * doy + 2) div 153;
          d = doy - (153 * mp + 2) div 5 + 1;
          m = (if mp < 10 then mp + 3 else mp - 9)
      in (yoe + era * 400 + (if m \<le> 2 then 1 else 0), m, d))"

definition days_from_civil :: "int \<Rightarrow> int \<Rightarrow> int \<Rightarrow> int" where
  "days_from_civil y0 m d =
     (let y = (if m \<le> 2 then y0 - 1 else y0);
          era = y div 400;
          yoe = y mod 400;
          doy = (153 * (if m > 2 then m - 3 else m + 9) + 2) div 5 + d - 1;
          doe = yoe * 365 + yoe div 4 - yoe div 100 + doy
      in era * 146097 + doe - 719468)"

definition utc_getHours :: "instant \<Rightarrow> int" where
  "utc_getHours t = (t div 3600000) mod 24"

definition utc_setHours :: "int \<Rightarrow> int \<Rightarrow> int \<Rightarrow> int \<Rightarrow> instant \<Rightarrow> instant" where
  "utc_setHours h m s ms t = (t div 86400000) * 86400000 + ((h * 60 + m) * 60 + s) * 1000 + ms"

definition utc_getDate :: "instant \<Rightarrow> int" where
  "utc_getDate t = (case civil_from_days (t div 86400000) of (y, m, d) \<Rightarrow> d)"

definition utc_setDate :: "int \<Rightarrow> instant \<Rightarrow> instant" where
  "utc_setDate d' t =
     (case civil_from_days (t div 86400000) of
        (y, m, d) \<Rightarrow> (days_from_civil y m 1 + d' - 1) * 86400000 + t mod 86400000)"

definition utc_getMonth :: "instant \<Rightarrow> int" where
  "utc_getMonth t = (case civil_from_days (t div 86400000) of (y, m, d) \<Rightarrow> m - 1)"

definition utc_setMonth :: "int \<Rightarrow> instant \<Rightarrow> instant" where
  "utc_setMonth m' t =
     (case civil_from_days (t div 86400000) of
        (y, m, d) \<Rightarrow>
          (days_from_civil (y + m' div 12) (m' mod 12 + 1) 1 + d - 1) * 86400000
            + t mod 86400000)"

text \<open>The process with the default allowed location and radius, at a given time, with
  the given behaviour of the two query shapes.\<close>

definition utc_env :: "instant \<Rightarrow> string option \<Rightarrow> string option \<Rightarrow> env" where
  "utc_env t eq_err range_err =
     \<lparr>now = t, getHours = utc_getHours, setHours = utc_setHours,
      getDate = utc_getDate, setDate = utc_setDate,
      getMonth = utc_getMonth, setMonth = utc_setMonth,
      allowedLng = 8.8362755, allowedLat = 33.1245286, allowedRadius = 500,
      eq_query_error = eq_err, range_query_error = range_err\<rparr>"

section \<open>Reference quantities and sample data\<close>

text \<open>What one record is worth in a report: a day when it has an entry time, and the
  hours between entry and exit when it has both.\<close>

definition daysPresent :: "attendance \<Rightarrow> nat" where
  "daysPresent a = (case entryTime a of None \<Rightarrow> 0 | Some t \<Rightarrow> 1)"

definition hoursWorked :: "attendance \<Rightarrow> real" where
  "hoursWorked a =
     (case entryTime a of
        None \<Rightarrow> 0
      | Some t \<Rightarrow> (case exitTime a of None \<Rightarrow> 0 | Some x \<Rightarrow> real_of_int (x - t) / 3600000))"

text \<open>An employee with a registered face, the allowed location, and two records of
  that employee: a closed one (2025-06-02, 08:00 to 16:00 UTC) and an open one
  (entry on 2025-11-13 at 09:00 UTC).\<close>

definition sampleEmployee :: employee where
  "sampleEmployee =
     \<lparr>email = ''e1@example.com'', faceDescriptor = Some (replicate 128 0),
      hireDate = Some 1735689600000, emp_createdAt = None\<rparr>"

definition office :: "real list" where
  "office = [8.8362755, 33.1245286]"

definition closedRecord :: attendance where
  "closedRecord =
     \<lparr>employeeId = ''E1'', entryTime = Some 1748851200000, exitTime = Some 1748880000000,
      location = office, exitLocation = Some office, att_method = ''manual'',
      createdAt = 1748851200000, updatedAt = Some 1748880000000\<rparr>"

definition openRecord :: attendance where
  "openRecord =
     \<lparr>employeeId = ''E1'', entryTime = Some 1763024400000, exitTime = None,
      location = office, exitLocation = None, att_method = ''manual'',
      createdAt = 1763024400000, updatedAt = None\<rparr>"

definition sampleWorld :: "attendance list \<Rightarrow> world" where
  "sampleWorld docs = \<lparr>employees = [(''E1'', sampleEmployee)], attendanceDocs = docs, outbox = []\<rparr>"

text \<open>A request by the sample employee to record an exit at the office at a given
  instant.\<close>

definition exitRequest :: "instant \<Rightarrow> request" where
  "exitRequest t =
     \<lparr>user = \<lparr>uid = ''E1'', urole = ''employee''\<rparr>, body_employeeId = ''E1'',
      body_entryTime = None, body_exitTime = Some t, coordinates = office,
      body_method = [], qrData = EmptyString, faceTemplate = []\<rparr>"

text \<open>A request by the sample employee for a facial entry at the office at 08:00 UTC
  on 2025-11-13, with a given face template.\<close>

definition facialRequest :: "real list \<Rightarrow> request" where
  "facialRequest template =
     \<lparr>user = \<lparr>uid = ''E1'', urole = ''employee''\<rparr>, body_employeeId = ''E1'',
      body_entryTime = Some 1763020800000, body_exitTime = None, coordinates = office,
      body_method = [], qrData = EmptyString, faceTemplate = template\<rparr>"

text \<open>A payload for the sample employee with given issue and expiry times, and a scan
  of it by that employee at the office.\<close>

definition qrAt :: "instant \<Rightarrow> instant \<Rightarrow> qr_payload" where
  "qrAt issued expires =
     \<lparr>qr_employeeId = Some ''E1'', qr_timestamp = Some issued, qr_expiresAt = Some expires\<rparr>"

definition scanRequest :: "qr_payload \<Rightarrow> request" where
  "scanRequest p =
     \<lparr>user = \<lparr>uid = ''E1'', urole = ''employee''\<rparr>, body_employeeId = [],
      body_entryTime = Some 1763020800000, body_exitTime = None, coordinates = office,
      body_method = [], qrData = Parsed p, faceTemplate = []\<rparr>"

text \<open>The open records of an employee in the store.\<close>

definition openSessions :: "world \<Rightarrow> string \<Rightarrow> attendance list" where
  "openSessions w e = filter (\<lambda>a. employeeId a = e \<and> exitTime a = None) (attendanceDocs w)"

text \<open>A manual entry request of the sample employee at the office, the message of
  Firestore's missing-index error, and report queries for the week and the month of
  2025-11-13 and for November 2025.\<close>

definition entryRequest :: request where
  "entryRequest =
     \<lparr>user = \<lparr>uid = ''E1'', urole = ''employee''\<rparr>, body_employeeId = ''E1'',
      body_entryTime = Some 1763028000000, body_exitTime = None, coordinates = office,
      body_method = ''manual'', qrData = EmptyString, faceTemplate = []\<rparr>"

text \<open>The store after the manual entry has been recorded in the empty store at 10:00
  UTC on 2025-11-13.\<close>

definition afterManualEntry :: world where
  "afterManualEntry =
     snd (recordAttendance (utc_env 1763028000000 None None) entryRequest (sampleWorld []))"

definition indexMessage :: string where
  "indexMessage = ''9 FAILED_PRECONDITION: The query requires an index.''"

definition weeklyQuery :: report_request where
  "weeklyQuery =
     \<lparr>param_employeeId = ''E1'', period = ''weekly'', startDate = Date 1762992000000,
      endDate = Missing\<rparr>"

definition novemberQuery :: reports_request where
  "novemberQuery =
     \<lparr>all_period = [], all_startDate = Some 1761955200000, all_endDate = Some 1764547200000\<rparr>"

definition monthlyQuery :: report_request where
  "monthlyQuery =
     \<lparr>param_employeeId = ''E1'', period = ''monthly'', startDate = Date 1762992000000,
      endDate = Missing\<rparr>"

text \<open>The Euclidean distance of two vectors, \<open>sqrt (\<Sum> (a\<^sub>i - b\<^sub>i)\<^sup>2)\<close>, over the
  indices of the first.\<close>

definition euclideanDistance :: "real list \<Rightarrow> real list \<Rightarrow> real" where
  "euclideanDistance a b = sqrt (\<Sum>i<length a. (a ! i - b ! i)\<^sup>2)"

text \<open>The confidence figure an answer carries: only the "Face not recognized" message has
  one.\<close>

definition reportedFigure :: "failure + 'a \<Rightarrow> confidence option" where
  "reportedFigure r = (case r of Inl (FaceNotRecognized c) \<Rightarrow> Some c | _ \<Rightarrow> None)"

text \<open>Face templates of 128 numbers that are 0 but for their first entries: at distance
  0.5, 0.65 and 1.5 from the descriptor of the sample employee, which is 0 throughout.\<close>

definition templateAt :: "real list \<Rightarrow> real list" where
  "templateAt xs = xs @ replicate (128 - length xs) 0"

definition nearTemplate :: "real list" where
  "nearTemplate = templateAt [3 / 10, 4 / 10]"

definition farTemplate :: "real list" where
  "farTemplate = templateAt [1 / 4, 6 / 10]"

definition strangerTemplate :: "real list" where
  "strangerTemplate = templateAt [3 / 4, 3 / 4, 3 / 4, 3 / 4]"

text \<open>What one record adds to \<open>lateDays\<close>, and the report of an employee over all the
  records of that employee in the store, with the period and dates the handler writes
  for the request.\<close>

definition lateArrival :: "env \<Rightarrow> attendance \<Rightarrow> nat" where
  "lateArrival env a =
     (case entryTime a of None \<Rightarrow> 0 | Some t \<Rightarrow> if getHours env t \<ge> 9 then 1 else 0)"

definition unfilteredReport :: "env \<Rightarrow> reports_request \<Rightarrow> world \<Rightarrow> string \<times> employee \<Rightarrow> report" where
  "unfilteredReport env q w ie =
     (case ie of (eid, emp) \<Rightarrow>
        buildReport env eid (reportPeriod q)
          (fst (reportDates env q emp (employeeWindow env q emp)))
          (snd (reportDates env q emp (employeeWindow env q emp)))
          (filter (\<lambda>a. employeeId a = eid) (attendanceDocs w)))"

section \<open>Aggregation of a report\<close>

lemma tally_totalDays: "totalDays (tally env r a) = totalDays r + daysPresent a"
  by (simp add: tally_def daysPresent_def Let_def split: option.splits)

lemma tally_totalHours: "totalHours (tally env r a) = totalHours r + hoursWorked a"
  by (simp add: tally_def hoursWorked_def Let_def split: option.splits)

lemma foldl_tally_totalDays:
  "totalDays (foldl (tally env) r rs) = totalDays r + sum_list (map daysPresent rs)"
  by (induction rs arbitrary: r) (simp_all add: tally_totalDays)

lemma foldl_tally_totalHours:
  "totalHours (foldl (tally env) r rs) = totalHours r + sum_list (map hoursWorked rs)"
  by (induction rs arbitrary: r) (simp_all add: tally_totalHours)

lemma buildReport_totalDays:
  "totalDays (buildReport env e p s f rs) = sum_list (map daysPresent rs)"
  by (simp add: buildReport_def foldl_tally_totalDays)

lemma buildReport_totalHours:
  "totalHours (buildReport env e p s f rs) = sum_list (map hoursWorked rs)"
  by (simp add: buildReport_def foldl_tally_totalHours)

text \<open>
  C8. In a report built over a list of attendance records, a record with an entry
  time and no exit time adds exactly 1 to \<open>totalDays\<close> and 0 to \<open>totalHours\<close>,
  and a record with both adds exactly 1 to \<open>totalDays\<close> and the difference of
  exit and entry, in hours, to \<open>totalHours\<close>: the report over the records with
  the record \<open>a\<close> among them is compared with the report over the others.
\<close>

theorem report_record_contribution:
  "(entryTime a = Some t \<and> exitTime a = None \<longrightarrow>
      totalDays (buildReport env e p s f (xs @ a # ys)) =
        totalDays (buildReport env e p s f (xs @ ys)) + 1 \<and>
      totalHours (buildReport env e p s f (xs @ a # ys)) =
        totalHours (buildReport env e p s f (xs @ ys)) + 0) \<and>
   (entryTime a = Some t \<and> exitTime a = Some x \<longrightarrow>
      totalDays (buildReport env e p s f (xs @ a # ys)) =
        totalDays (buildReport env e p s f (xs @ ys)) + 1 \<and>
      totalHours (buildReport env e p s f (xs @ a # ys)) =
        totalHours (buildReport env e p s f (xs @ ys)) + real_of_int (x - t) / (1000 * 60 * 60))"
  by (simp add: buildReport_totalDays buildReport_totalHours daysPresent_def hoursWorked_def)

theorem report_record_contribution_witness:
  "entryTime openRecord = Some 1763024400000 \<and> exitTime openRecord = None \<and>
   entryTime closedRecord = Some 1748851200000 \<and> exitTime closedRecord = Some 1748880000000 \<and>
   totalDays (buildReport (utc_env 1763053200000 None None) ''E1'' ''daily'' None None
                ([closedRecord] @ openRecord # [])) = 2 \<and>
   totalHours (buildReport (utc_env 1763053200000 None None) ''E1'' ''daily'' None None
                ([closedRecord] @ openRecord # [])) = 8"
  using report_record_contribution
          [of openRecord 1763024400000 "utc_env 1763053200000 None None" "''E1''" "''daily''"
              None None "[closedRecord]" "[]" 0]
        report_record_contribution
          [of closedRecord 1748851200000 "utc_env 1763053200000 None None" "''E1''" "''daily''"
              None None "[]" "[]" 1748880000000]
  by (simp add: openRecord_def closedRecord_def buildReport_def)

section \<open>Recording an exit\<close>

lemma queryByEmployee_sound:
  "(i, a) \<in> set (queryByEmployee w e) \<Longrightarrow>
     i < length (attendanceDocs w) \<and> attendanceDocs w ! i = a \<and> employeeId a = e"
  by (auto simp: queryByEmployee_def in_set_enumerate_eq)

lemma queryByEmployeeInRange_sound:
  "(i, a) \<in> set (queryByEmployeeInRange w e s t) \<Longrightarrow>
     i < length (attendanceDocs w) \<and> attendanceDocs w ! i = a \<and> employeeId a = e"
  by (auto simp: queryByEmployeeInRange_def in_set_enumerate_eq)

lemma queryWithFallback_sound:
  assumes "queryWithFallback env w e s t = Inr snapshot" and "(i, a) \<in> set snapshot"
  shows "i < length (attendanceDocs w) \<and> attendanceDocs w ! i = a \<and> employeeId a = e"
  using assms queryByEmployee_sound [of i a w e] queryByEmployeeInRange_sound [of i a w e s t]
  by (auto simp: queryWithFallback_def split: option.splits if_splits)

lemma findOpenAttendance_sound:
  assumes "findOpenAttendance env w e = Inr (Some (i, a))"
  shows "i < length (attendanceDocs w) \<and> attendanceDocs w ! i = a \<and>
         exitTime a = None \<and> employeeId a = e"
proof -
  from assms obtain snapshot where
    q: "queryWithFallback env w e (now env - 30 * 24 * 60 * 60 * 1000)
          (now env + 30 * 24 * 60 * 60 * 1000) = Inr snapshot" and
    f: "find (\<lambda>(i, a). exitTime a = None) (sortByEntryDesc snapshot) = Some (i, a)"
    by (auto simp: findOpenAttendance_def split: sum.splits)
  from f have "(i, a) \<in> set (sortByEntryDesc snapshot)" and ex: "exitTime a = None"
    by (auto simp: find_Some_iff in_set_conv_nth)
  then have "(i, a) \<in> set snapshot"
    by (simp add: sortByEntryDesc_def)
  with q ex show ?thesis
    using queryWithFallback_sound by blast
qed

lemma recordExit_failure_unchanged:
  "fst (recordExit env req w) = Inl err \<Longrightarrow> snd (recordExit env req w) = w"
  by (auto simp: recordExit_def Let_def split: if_splits option.splits sum.splits prod.splits)

lemma sample_findOpen:
  "findOpenAttendance (utc_env 1763053200000 None None)
     (sampleWorld [closedRecord, openRecord]) ''E1'' = Inr (Some (1, openRecord))"
  by (simp add: findOpenAttendance_def queryWithFallback_def utc_env_def sampleWorld_def
      queryByEmployeeInRange_def closedRecord_def openRecord_def inWindow_def
      sortByEntryDesc_def entryMillis_def enumerate_eq_zip)

lemma sample_findOpen_none:
  "findOpenAttendance (utc_env 1763053200000 None None)
     (sampleWorld [closedRecord]) ''E1'' = Inr None"
  by (simp add: findOpenAttendance_def queryWithFallback_def utc_env_def sampleWorld_def
      queryByEmployeeInRange_def closedRecord_def inWindow_def
      sortByEntryDesc_def entryMillis_def enumerate_eq_zip)

text \<open>
  C7. When \<open>recordExit\<close> has located an open record (no exit time) of the
  employee, with entry time \<open>t\<close>: an exit instant at or before \<open>t\<close> is refused
  with "Exit time must be after entry time" and nothing is written; a later exit
  instant updates the located record, and only it, with the exit time and the exit
  location, and the updated record is returned.
\<close>

theorem recordExit_chronology:
  assumes "validateExitAttendance req"
    and "body_exitTime req = Some x"
    and "map_of (employees w) (body_employeeId req) = Some emp"
    and "findOpenAttendance env w (body_employeeId req) = Inr (Some (i, a))"
    and "entryTime a = Some t"
  shows "(x \<le> t \<longrightarrow> recordExit env req w = (Inl ExitNotAfterEntry, w)) \<and>
         (t < x \<longrightarrow>
            fst (recordExit env req w) =
              Inr (i, a\<lparr>exitTime := Some x, exitLocation := Some (coordinates req),
                         updatedAt := Some (now env)\<rparr>) \<and>
            attendanceDocs (snd (recordExit env req w)) =
              (attendanceDocs w)[i := a\<lparr>exitTime := Some x, exitLocation := Some (coordinates req),
                                         updatedAt := Some (now env)\<rparr>] \<and>
            i < length (attendanceDocs w) \<and> attendanceDocs w ! i = a \<and> exitTime a = None)"
  using assms findOpenAttendance_sound [OF assms(4)]
  by (simp add: recordExit_def Let_def sendEmailAndNotify_def)

theorem recordExit_chronology_witness:
  "recordExit (utc_env 1763053200000 None None) (exitRequest 1763022600000)
     (sampleWorld [closedRecord, openRecord])
     = (Inl ExitNotAfterEntry, sampleWorld [closedRecord, openRecord]) \<and>
   fst (recordExit (utc_env 1763053200000 None None) (exitRequest 1763053200000)
     (sampleWorld [closedRecord, openRecord]))
     = Inr (1, openRecord\<lparr>exitTime := Some 1763053200000, exitLocation := Some office,
                            updatedAt := Some 1763053200000\<rparr>) \<and>
   attendanceDocs (snd (recordExit (utc_env 1763053200000 None None) (exitRequest 1763053200000)
     (sampleWorld [closedRecord, openRecord])))
     = [closedRecord, openRecord\<lparr>exitTime := Some 1763053200000, exitLocation := Some office,
                            updatedAt := Some 1763053200000\<rparr>]"
proof -
  let ?env = "utc_env 1763053200000 None None"
  let ?w = "sampleWorld [closedRecord, openRecord]"
  have v: "validateExitAttendance (exitRequest u)" for u
    by (simp add: validateExitAttendance_def exitRequest_def office_def)
  have x: "body_exitTime (exitRequest u) = Some u" for u
    by (simp add: exitRequest_def)
  have m: "map_of (employees ?w) (body_employeeId (exitRequest u)) = Some sampleEmployee" for u
    by (simp add: sampleWorld_def exitRequest_def)
  have f: "findOpenAttendance ?env ?w (body_employeeId (exitRequest u)) = Inr (Some (1, openRecord))" for u
    using sample_findOpen by (simp add: exitRequest_def)
  have t: "entryTime openRecord = Some 1763024400000"
    by (simp add: openRecord_def)
  show ?thesis
    using recordExit_chronology [OF v x m f t, of 1763022600000]
          recordExit_chronology [OF v x m f t, of 1763053200000]
    by (simp add: exitRequest_def sampleWorld_def utc_env_def)
qed

text \<open>
  C9. A call of \<open>recordExit\<close> that fails leaves the store as it was, so no
  attendance record is created or modified; an unknown employee, the absence of
  an open record, and an exit instant at or before the entry of the located record
  are such failures.
\<close>

theorem recordExit_failure_no_write:
  "(fst (recordExit env req w) = Inl err \<longrightarrow> snd (recordExit env req w) = w) \<and>
   (validateExitAttendance req \<and> map_of (employees w) (body_employeeId req) = None \<longrightarrow>
      recordExit env req w = (Inl EmployeeNotFound, w)) \<and>
   (validateExitAttendance req \<and> map_of (employees w) (body_employeeId req) = Some emp \<and>
    findOpenAttendance env w (body_employeeId req) = Inr None \<longrightarrow>
      recordExit env req w = (Inl NoEntryAttendance, w)) \<and>
   (validateExitAttendance req \<and> map_of (employees w) (body_employeeId req) = Some emp \<and>
    findOpenAttendance env w (body_employeeId req) = Inr (Some (i, a)) \<and>
    entryTime a = Some t \<and> body_exitTime req = Some x \<and> x \<le> t \<longrightarrow>
      recordExit env req w = (Inl ExitNotAfterEntry, w))"
  using recordExit_failure_unchanged [of env req w err]
  by (auto simp: recordExit_def validateExitAttendance_def)

theorem recordExit_failure_no_write_witness:
  "recordExit (utc_env 1763053200000 None None)
     ((exitRequest 1763053200000)\<lparr>body_employeeId := ''E9''\<rparr>) (sampleWorld [openRecord])
     = (Inl EmployeeNotFound, sampleWorld [openRecord]) \<and>
   recordExit (utc_env 1763053200000 None None) (exitRequest 1763053200000)
     (sampleWorld [closedRecord])
     = (Inl NoEntryAttendance, sampleWorld [closedRecord]) \<and>
   recordExit (utc_env 1763053200000 None None) (exitRequest 1763022600000)
     (sampleWorld [closedRecord, openRecord])
     = (Inl ExitNotAfterEntry, sampleWorld [closedRecord, openRecord])"
proof -
  let ?env = "utc_env 1763053200000 None None"
  have v: "validateExitAttendance ((exitRequest u)\<lparr>body_employeeId := e\<rparr>)" if "e \<noteq> []" for u e
    using that by (simp add: validateExitAttendance_def exitRequest_def office_def)
  have f1: "findOpenAttendance ?env (sampleWorld [closedRecord, openRecord])
              (body_employeeId (exitRequest u)) = Inr (Some (1, openRecord))" for u
    using sample_findOpen by (simp add: exitRequest_def)
  have f0: "findOpenAttendance ?env (sampleWorld [closedRecord])
              (body_employeeId (exitRequest u)) = Inr None" for u
    using sample_findOpen_none by (simp add: exitRequest_def)
  show ?thesis
    using recordExit_failure_no_write
            [of ?env "(exitRequest 1763053200000)\<lparr>body_employeeId := ''E9''\<rparr>"
                "sampleWorld [openRecord]" EmployeeNotFound]
          recordExit_failure_no_write
            [of ?env "exitRequest 1763053200000" "sampleWorld [closedRecord]"
                NoEntryAttendance sampleEmployee]
          recordExit_failure_no_write
            [of ?env "exitRequest 1763022600000" "sampleWorld [closedRecord, openRecord]"
                ExitNotAfterEntry sampleEmployee 1 openRecord 1763024400000 1763022600000]
          v [of "''E9''"] v [of "''E1''"] f0 f1
    by (simp add: exitRequest_def sampleWorld_def openRecord_def)
qed

section \<open>The tail of the entry handlers\<close>

lemma locateAndCreate_outside:
  "locationDistance env cs > allowedRadius env \<Longrightarrow>
     fst (locateAndCreate env w emp e t cs m) = Inl OutsideAllowedArea \<and>
     attendanceDocs (snd (locateAndCreate env w emp e t cs m)) = attendanceDocs w"
  by (simp add: locateAndCreate_def sendEmailAndNotify_def)

lemma locateAndCreate_inside:
  "locationDistance env cs \<le> allowedRadius env \<Longrightarrow>
     fst (locateAndCreate env w emp e t cs m) =
       Inr (length (attendanceDocs w), attendanceData env e t cs m) \<and>
     attendanceDocs (snd (locateAndCreate env w emp e t cs m)) =
       attendanceDocs w @ [attendanceData env e t cs m]"
  by (simp add: locateAndCreate_def sendEmailAndNotify_def addAttendance_def attendanceData_def Let_def)

lemma locateAndCreate_failure:
  "fst (locateAndCreate env w emp e t cs m) = Inl err \<Longrightarrow> err = OutsideAllowedArea"
  using locateAndCreate_outside [of env cs w emp e t m] locateAndCreate_inside [of env cs w emp e t m]
  by (cases "locationDistance env cs > allowedRadius env") auto

section \<open>Facial verification\<close>

lemma foldl_squares_zero:
  "foldl (\<lambda>sum (val, b). sum + (val - b)\<^sup>2) acc (zip xs xs) = (acc::real)"
  by (induction xs arbitrary: acc) simp_all

lemma calculateDistance_same: "calculateDistance xs xs = Finite 0"
  by (simp add: calculateDistance_def foldl_squares_zero)

lemma toFixed1_nonneg: "0 \<le> x \<Longrightarrow> 0 \<le> toFixed1 x"
  by (simp add: toFixed1_def)

lemma toFixed1_neg: "x \<le> - (1 / 20) \<Longrightarrow> toFixed1 x < 0"
proof -
  assume a: "x \<le> - (1 / 20)"
  then have "1 \<le> - x * 10 + 1 / 2" by simp
  then have "1 \<le> \<lfloor>- x * 10 + 1 / 2\<rfloor>" by linarith
  then have "0 < (of_int \<lfloor>- x * 10 + 1 / 2\<rfloor> :: real)" by simp
  with a show ?thesis by (simp add: toFixed1_def)
qed

lemma office_inside: "locationDistance (utc_env t a b) office = 0"
  by (simp add: locationDistance_def utc_env_def office_def)

lemma office_accepted:
  "locationDistance (utc_env t a b) office \<le> allowedRadius (utc_env t a b)"
  by (simp add: office_inside) (simp add: utc_env_def)

lemma nearest_tenth:
  fixes r y :: real
  assumes "r \<le> y * 10 + 1 / 2" and "y * 10 + 1 / 2 < r + 1"
  shows "\<bar>r / 10 - y\<bar> \<le> 1 / 20"
  using assms by (cases "r / 10 - y < 0") (simp_all add: abs_if)

lemma toFixed1_tenth:
  "(\<exists>n::int. toFixed1 x = of_int n / 10) \<and> \<bar>toFixed1 x - x\<bar> \<le> 1 / 20"
proof (cases "x < 0")
  case True
  let ?n = "\<lfloor>- x * 10 + 1 / 2\<rfloor>"
  have t: "toFixed1 x = - (of_int ?n / 10)"
    using True by (simp add: toFixed1_def)
  have "of_int ?n \<le> (- x) * 10 + 1 / 2" and "(- x) * 10 + 1 / 2 < of_int ?n + 1"
    by linarith+
  then have "\<bar>of_int ?n / 10 - (- x)\<bar> \<le> 1 / 20"
    by (rule nearest_tenth)
  then have "\<bar>- (of_int ?n / 10) - x\<bar> \<le> 1 / 20"
    by linarith
  moreover have "- (real_of_int ?n / 10) = of_int (- ?n) / 10"
    by simp
  ultimately show ?thesis
    unfolding t by blast
next
  case False
  let ?n = "\<lfloor>x * 10 + 1 / 2\<rfloor>"
  have t: "toFixed1 x = of_int ?n / 10"
    using False by (simp add: toFixed1_def)
  have "of_int ?n \<le> x * 10 + 1 / 2" and "x * 10 + 1 / 2 < of_int ?n + 1"
    by linarith+
  then have "\<bar>of_int ?n / 10 - x\<bar> \<le> 1 / 20"
    by (rule nearest_tenth)
  then show ?thesis
    unfolding t by blast
qed

lemma foldl_squares:
  "foldl (\<lambda>sum (val, b). sum + (val - b)\<^sup>2) acc zs
     = acc + sum_list (map (\<lambda>(val, b). (val - b)\<^sup>2) zs)"
  by (induction zs arbitrary: acc) (simp_all add: case_prod_beta add.assoc)

lemma sum_list_zip_nth:
  "length xs = length ys \<Longrightarrow>
     sum_list (map (\<lambda>(a, b). (a - b)\<^sup>2) (zip xs ys)) = (\<Sum>i<length xs. (xs ! i - ys ! i)\<^sup>2)"
  by (auto simp: sum_list_sum_nth atLeast0LessThan intro!: sum.cong)

lemma calculateDistance_euclidean:
  "length a = length b \<Longrightarrow> calculateDistance a b = Finite (euclideanDistance a b)"
  by (simp add: calculateDistance_def euclideanDistance_def foldl_squares sum_list_zip_nth)

lemma calculateDistance_lengths:
  "length a \<noteq> length b \<Longrightarrow> calculateDistance a b = Infinity"
  by (simp add: calculateDistance_def)

lemma euclideanDistance_same: "euclideanDistance xs xs = 0"
  by (simp add: euclideanDistance_def)

lemma sum_list_zeros: "sum_list (replicate n (0::real)) = 0"
  by (induction n) simp_all

lemma distance_from_origin:
  assumes "length xs \<le> 128"
  shows "length (templateAt xs) = 128 \<and>
         euclideanDistance (templateAt xs) (replicate 128 0) = sqrt (\<Sum>x\<leftarrow>xs. x\<^sup>2)"
proof -
  have z: "replicate 128 (0::real) = replicate (length xs) 0 @ replicate (128 - length xs) 0"
    using assms by (simp add: replicate_add [symmetric])
  have s: "sum_list (map (\<lambda>(a, b). (a - b)\<^sup>2) (zip ys (replicate (length ys) 0)))
             = (\<Sum>x\<leftarrow>ys. x\<^sup>2)" for ys :: "real list"
    by (induction ys) simp_all
  have l: "length (templateAt xs) = 128"
    using assms by (simp add: templateAt_def)
  then have "Finite (euclideanDistance (templateAt xs) (replicate 128 0))
               = calculateDistance (templateAt xs) (replicate 128 0)"
    by (simp add: calculateDistance_euclidean)
  also have "\<dots> = Finite (sqrt (\<Sum>x\<leftarrow>xs. x\<^sup>2))"
    using l by (simp add: calculateDistance_def foldl_squares)
               (simp add: templateAt_def z s sum_list_zeros)
  finally show ?thesis using l by simp
qed


lemma sample_distances:
  "euclideanDistance (templateAt []) (replicate 128 0) = 0 \<and>
   euclideanDistance nearTemplate (replicate 128 0) = 1 / 2 \<and>
   euclideanDistance farTemplate (replicate 128 0) = 65 / 100 \<and>
   euclideanDistance strangerTemplate (replicate 128 0) = 3 / 2"
proof -
  have a: "sqrt ((1 / 4)\<^sup>2 + (6 / 10)\<^sup>2) = (65 / 100 :: real)"
    by (rule real_sqrt_unique) (simp_all add: power2_eq_square)
  have b: "sqrt ((3 / 10)\<^sup>2 + (4 / 10)\<^sup>2) = (1 / 2 :: real)"
    by (rule real_sqrt_unique) (simp_all add: power2_eq_square)
  have c: "sqrt ((3 / 4)\<^sup>2 + ((3 / 4)\<^sup>2 + ((3 / 4)\<^sup>2 + (3 / 4)\<^sup>2))) = (3 / 2 :: real)"
    by (rule real_sqrt_unique) (simp_all add: power2_eq_square)
  show ?thesis
    unfolding nearTemplate_def farTemplate_def strangerTemplate_def
    using distance_from_origin [of "[]"]
          distance_from_origin [of "[1 / 4, 6 / 10]"] distance_from_origin [of "[3 / 10, 4 / 10]"]
          distance_from_origin [of "[3 / 4, 3 / 4, 3 / 4, 3 / 4]"] a b c
    by simp
qed

lemma sample_templates:
  "length (templateAt []) = 128 \<and> templateAt [] = replicate 128 0 \<and>
   length nearTemplate = 128 \<and> length farTemplate = 128 \<and> length strangerTemplate = 128"
  by (simp add: templateAt_def nearTemplate_def farTemplate_def strangerTemplate_def)

lemma sample_facial_request:
  "length xs = 128 \<Longrightarrow>
     validateFacialAttendance (facialRequest xs) \<and>
     uid (user (facialRequest xs)) \<noteq> [] \<and>
     map_of (employees (sampleWorld docs)) (body_employeeId (facialRequest xs))
       = Some sampleEmployee \<and>
     faceDescriptor sampleEmployee = Some (replicate 128 0) \<and>
     length (replicate 128 (0::real)) = length (faceTemplate (facialRequest xs)) \<and>
     faceTemplate (facialRequest xs) = xs \<and>
     coordinates (facialRequest xs) = office \<and>
     authorized (user (facialRequest xs)) (body_employeeId (facialRequest xs))"
  by (simp add: validateFacialAttendance_def facialRequest_def office_def sampleWorld_def
      sampleEmployee_def authorized_def)

lemma facialAttendance_compares:
  assumes "validateFacialAttendance req"
    and "uid (user req) \<noteq> []"
    and "map_of (employees w) (body_employeeId req) = Some emp"
    and "faceDescriptor emp = Some stored"
    and "body_entryTime req = Some t"
  shows "facialAttendance env req w =
           (let dist = calculateDistance (faceTemplate req) stored in
            if notRecognized dist then (Inl (FaceNotRecognized (reportedConfidence dist)), w)
            else if \<not> authorized (user req) (body_employeeId req) then (Inl AccessDenied, w)
            else locateAndCreate env w emp (body_employeeId req) t (coordinates req) ''facial'')"
  using assms by (simp add: facialAttendance_def)

lemma facialAttendance_recognized:
  assumes "validateFacialAttendance req"
    and "uid (user req) \<noteq> []"
    and "map_of (employees w) (body_employeeId req) = Some emp"
    and "faceDescriptor emp = Some stored"
    and "length stored = length (faceTemplate req)"
    and "euclideanDistance (faceTemplate req) stored < 6 / 10"
  shows "(\<forall>c. fst (facialAttendance env req w) \<noteq> Inl (FaceNotRecognized c)) \<and>
         (authorized (user req) (body_employeeId req) \<and>
          locationDistance env (coordinates req) \<le> allowedRadius env \<longrightarrow>
            \<not> isl (fst (facialAttendance env req w)))"
proof -
  from assms(1) obtain t where t: "body_entryTime req = Some t"
    by (auto simp: validateFacialAttendance_def)
  have d: "calculateDistance (faceTemplate req) stored
             = Finite (euclideanDistance (faceTemplate req) stored)"
    using assms(5) by (simp add: calculateDistance_euclidean)
  show ?thesis
    using assms(6)
    by (auto simp: facialAttendance_compares [OF assms(1-4) t] d notRecognized_def Let_def
        locateAndCreate_inside dest: locateAndCreate_failure)
qed

lemma facialAttendance_rejected:
  assumes "validateFacialAttendance req"
    and "uid (user req) \<noteq> []"
    and "map_of (employees w) (body_employeeId req) = Some emp"
    and "faceDescriptor emp = Some stored"
    and "length stored = length (faceTemplate req)"
    and "6 / 10 \<le> euclideanDistance (faceTemplate req) stored"
  shows "facialAttendance env req w =
           (Inl (FaceNotRecognized (Percent (toFixed1
              (100 - euclideanDistance (faceTemplate req) stored * 100)))), w)"
proof -
  from assms(1) obtain t where t: "body_entryTime req = Some t"
    by (auto simp: validateFacialAttendance_def)
  have d: "calculateDistance (faceTemplate req) stored
             = Finite (euclideanDistance (faceTemplate req) stored)"
    using assms(5) by (simp add: calculateDistance_euclidean)
  show ?thesis
    using assms(6)
    by (simp add: facialAttendance_compares [OF assms(1-4) t] d notRecognized_def Let_def
        reportedConfidence_def)
qed

text \<open>
  C5. For a facial attendance request that reaches the comparison (valid request,
  known employee with a stored descriptor): when the submitted vector is the
  stored descriptor the Euclidean distance is 0, the request is not rejected as
  "Face not recognized", and it is accepted when the requester is authorised and
  inside the allowed area; when the Euclidean distance of the submitted vector and
  the stored descriptor is at least 0.6 (or the stored descriptor has another
  length, for which \<open>calculateDistance\<close> gives \<open>Infinity\<close>) the request is
  rejected as "Face not recognized" and the store is unchanged, so no record is
  created. \<open>calculateDistance\<close> computes the Euclidean distance.
\<close>

theorem facial_threshold:
  assumes "validateFacialAttendance req"
    and "uid (user req) \<noteq> []"
    and "map_of (employees w) (body_employeeId req) = Some emp"
    and "faceDescriptor emp = Some stored"
  shows "(faceTemplate req = stored \<longrightarrow>
            euclideanDistance (faceTemplate req) stored = 0 \<and>
            calculateDistance (faceTemplate req) stored = Finite 0 \<and>
            (\<forall>c. fst (facialAttendance env req w) \<noteq> Inl (FaceNotRecognized c)) \<and>
            (authorized (user req) (body_employeeId req) \<and>
             locationDistance env (coordinates req) \<le> allowedRadius env \<longrightarrow>
               \<not> isl (fst (facialAttendance env req w)))) \<and>
         (length stored = length (faceTemplate req) \<and>
          6 / 10 \<le> euclideanDistance (faceTemplate req) stored \<longrightarrow>
            calculateDistance (faceTemplate req) stored
              = Finite (euclideanDistance (faceTemplate req) stored) \<and>
            facialAttendance env req w =
              (Inl (FaceNotRecognized (Percent (toFixed1
                 (100 - euclideanDistance (faceTemplate req) stored * 100)))), w)) \<and>
         (length stored \<noteq> length (faceTemplate req) \<longrightarrow>
            facialAttendance env req w = (Inl (FaceNotRecognized MinusInfinity), w))"
proof (intro conjI impI)
  assume same: "faceTemplate req = stored"
  show "euclideanDistance (faceTemplate req) stored = 0"
    and "calculateDistance (faceTemplate req) stored = Finite 0"
    using same by (simp_all add: euclideanDistance_same calculateDistance_same)
  have z: "euclideanDistance (faceTemplate req) stored < 6 / 10"
    using same by (simp add: euclideanDistance_same)
  have l: "length stored = length (faceTemplate req)"
    using same by simp
  show "\<forall>c. fst (facialAttendance env req w) \<noteq> Inl (FaceNotRecognized c)"
    using facialAttendance_recognized [OF assms l z] by simp
  assume "authorized (user req) (body_employeeId req) \<and>
          locationDistance env (coordinates req) \<le> allowedRadius env"
  then show "\<not> isl (fst (facialAttendance env req w))"
    using facialAttendance_recognized [OF assms l z] by simp
next
  assume far: "length stored = length (faceTemplate req) \<and>
               6 / 10 \<le> euclideanDistance (faceTemplate req) stored"
  then show "calculateDistance (faceTemplate req) stored
               = Finite (euclideanDistance (faceTemplate req) stored)"
    by (simp add: calculateDistance_euclidean)
  from far show "facialAttendance env req w =
      (Inl (FaceNotRecognized (Percent (toFixed1
         (100 - euclideanDistance (faceTemplate req) stored * 100)))), w)"
    using facialAttendance_rejected [OF assms] by simp
next
  assume "length stored \<noteq> length (faceTemplate req)"
  then have d: "calculateDistance (faceTemplate req) stored = Infinity"
    by (simp add: calculateDistance_lengths)
  from assms(1) obtain t where t: "body_entryTime req = Some t"
    by (auto simp: validateFacialAttendance_def)
  show "facialAttendance env req w = (Inl (FaceNotRecognized MinusInfinity), w)"
    by (simp add: facialAttendance_compares [OF assms t] d notRecognized_def
        reportedConfidence_def)
qed

theorem facial_threshold_witness:
  "\<not> isl (fst (facialAttendance (utc_env 1763020800000 None None)
                 (facialRequest (replicate 128 0)) (sampleWorld []))) \<and>
   facialAttendance (utc_env 1763020800000 None None) (facialRequest farTemplate) (sampleWorld [])
     = (Inl (FaceNotRecognized (Percent 35)), sampleWorld [])"
proof -
  let ?env = "utc_env 1763020800000 None None"
  have l0: "length (replicate 128 (0::real)) = 128" by simp
  have l1: "length farTemplate = 128" using sample_templates by simp
  note r0 = sample_facial_request [OF l0, of "[]"]
  note r1 = sample_facial_request [OF l1, of "[]"]
  have d: "euclideanDistance farTemplate (replicate 128 0) = 65 / 100"
    using sample_distances by simp
  have same: "\<not> isl (fst (facialAttendance ?env (facialRequest (replicate 128 0)) (sampleWorld [])))"
    using facial_threshold [of "facialRequest (replicate 128 0)" "sampleWorld []" sampleEmployee
            "replicate 128 0" ?env] r0 office_accepted [of 1763020800000 None None]
    by simp
  have "facialAttendance ?env (facialRequest farTemplate) (sampleWorld [])
          = (Inl (FaceNotRecognized (Percent (toFixed1 (100 - 65 / 100 * 100)))), sampleWorld [])"
    using facial_threshold [of "facialRequest farTemplate" "sampleWorld []" sampleEmployee
            "replicate 128 0" ?env] r1
    by (simp add: d l1)
  with same show ?thesis
    by (simp add: toFixed1_def)
qed

text \<open>
  C4 (as amended). For a facial attendance request that reaches the comparison, the
  submitted vector being at Euclidean distance \<open>d\<close> from the stored descriptor:
  when \<open>d < 0.6\<close> the answer carries no confidence figure; when \<open>d \<ge> 0.6\<close>
  the request is rejected and the figure in the message is \<open>100 - 100 d\<close>
  to one decimal place (a multiple of 0.1 within 0.05 of it), with no lower
  bound: 35.0 at \<open>d = 0.65\<close>, equal to \<open>max(0, 100 (1 - d))\<close> to one decimal
  place and not negative as long as \<open>d \<le> 1\<close>, and negative from
  \<open>d = 1.0005\<close> on.
\<close>

theorem facial_confidence_reported:
  assumes "validateFacialAttendance req"
    and "uid (user req) \<noteq> []"
    and "map_of (employees w) (body_employeeId req) = Some emp"
    and "faceDescriptor emp = Some stored"
    and "length stored = length (faceTemplate req)"
    and "d = euclideanDistance (faceTemplate req) stored"
  shows "(d < 6 / 10 \<longrightarrow> reportedFigure (fst (facialAttendance env req w)) = None) \<and>
         (6 / 10 \<le> d \<longrightarrow>
            fst (facialAttendance env req w) =
              Inl (FaceNotRecognized (Percent (toFixed1 (100 - d * 100)))) \<and>
            reportedFigure (fst (facialAttendance env req w)) =
              Some (Percent (toFixed1 (100 - d * 100)))) \<and>
         (d = 65 / 100 \<longrightarrow> toFixed1 (100 - d * 100) = 35) \<and>
         (d \<le> 1 \<longrightarrow> toFixed1 (100 - d * 100) = toFixed1 (max 0 (100 * (1 - d))) \<and>
                     0 \<le> toFixed1 (100 - d * 100)) \<and>
         (1 + 1 / 2000 \<le> d \<longrightarrow> toFixed1 (100 - d * 100) < 0) \<and>
         (\<exists>n::int. toFixed1 (100 - d * 100) = of_int n / 10) \<and>
         \<bar>toFixed1 (100 - d * 100) - (100 - d * 100)\<bar> \<le> 1 / 20"
proof -
  have n: "reportedFigure (fst (facialAttendance env req w)) = None" if "d < 6 / 10"
  proof -
    have "\<forall>c. fst (facialAttendance env req w) \<noteq> Inl (FaceNotRecognized c)"
      using facialAttendance_recognized [OF assms(1-5)] that assms(6) by simp
    then show ?thesis
      by (auto simp: reportedFigure_def split: sum.splits failure.splits)
  qed
  have r: "fst (facialAttendance env req w) =
             Inl (FaceNotRecognized (Percent (toFixed1 (100 - d * 100))))" if "6 / 10 \<le> d"
    using facialAttendance_rejected [OF assms(1-5)] that assms(6) by simp
  then have g: "reportedFigure (fst (facialAttendance env req w)) =
                  Some (Percent (toFixed1 (100 - d * 100)))" if "6 / 10 \<le> d"
    using that by (simp add: reportedFigure_def)
  have a: "toFixed1 (100 - (65 / 100) * 100) = 35"
    by (simp add: toFixed1_def)
  have b: "toFixed1 (100 - d * 100) = toFixed1 (max 0 (100 * (1 - d)))" if "d \<le> 1"
  proof -
    from that have "max 0 (100 * (1 - d)) = 100 - d * 100" by (simp add: algebra_simps)
    then show ?thesis by simp
  qed
  have c: "0 \<le> toFixed1 (100 - d * 100)" if "d \<le> 1"
    using that by (intro toFixed1_nonneg) simp
  have e: "toFixed1 (100 - d * 100) < 0" if "1 + 1 / 2000 \<le> d"
    using that by (intro toFixed1_neg) simp
  note k = toFixed1_tenth [of "100 - d * 100"]
  from n r g a b c e k show ?thesis by blast
qed

theorem facial_confidence_reported_witness:
  "fst (facialAttendance (utc_env 1763020800000 None None) (facialRequest farTemplate)
          (sampleWorld []))
     = Inl (FaceNotRecognized (Percent 35)) \<and>
   reportedFigure (fst (facialAttendance (utc_env 1763020800000 None None)
          (facialRequest farTemplate) (sampleWorld [])))
     = Some (Percent 35) \<and>
   reportedFigure (fst (facialAttendance (utc_env 1763020800000 None None)
          (facialRequest nearTemplate) (sampleWorld [])))
     = None"
proof -
  let ?env = "utc_env 1763020800000 None None"
  have l0: "length nearTemplate = 128" using sample_templates by simp
  have l1: "length farTemplate = 128" using sample_templates by simp
  note r0 = sample_facial_request [OF l0, of "[]"]
  note r1 = sample_facial_request [OF l1, of "[]"]
  have d0: "euclideanDistance nearTemplate (replicate 128 0) = 1 / 2"
    using sample_distances by simp
  have d1: "euclideanDistance farTemplate (replicate 128 0) = 65 / 100"
    using sample_distances by simp
  have near: "reportedFigure (fst (facialAttendance ?env (facialRequest nearTemplate)
                (sampleWorld []))) = None"
    using facial_confidence_reported [of "facialRequest nearTemplate" "sampleWorld []"
            sampleEmployee "replicate 128 0" "1 / 2" ?env] r0
    by (simp add: d0 l0)
  have "fst (facialAttendance ?env (facialRequest farTemplate) (sampleWorld []))
          = Inl (FaceNotRecognized (Percent (toFixed1 (100 - 65 / 100 * 100)))) \<and>
        reportedFigure (fst (facialAttendance ?env (facialRequest farTemplate) (sampleWorld [])))
          = Some (Percent (toFixed1 (100 - 65 / 100 * 100)))"
    using facial_confidence_reported [of "facialRequest farTemplate" "sampleWorld []"
            sampleEmployee "replicate 128 0" "65 / 100" ?env] r1
    by (simp add: d1 l1 reportedFigure_def)
  with near show ?thesis
    by (simp add: toFixed1_def reportedFigure_def)
qed

text \<open>
  C4 as stated fails: a vector at Euclidean distance 1.5 from the stored descriptor
  is rejected with the confidence figure -50.0, where \<open>max(0, 100 (1 - d))\<close>
  is 0.
\<close>

theorem facial_confidence_negative_counterexample:
  "length strangerTemplate = 128 \<and>
   euclideanDistance strangerTemplate (replicate 128 0) = 3 / 2 \<and>
   fst (facialAttendance (utc_env 1763020800000 None None) (facialRequest strangerTemplate)
          (sampleWorld []))
     = Inl (FaceNotRecognized (Percent (- 50))) \<and>
   (- 50 :: real) < 0 \<and>
   max 0 (100 * (1 - 3 / 2)) = (0 :: real)"
proof -
  have l: "length strangerTemplate = 128" using sample_templates by simp
  note r = sample_facial_request [OF l, of "[]"]
  have d: "euclideanDistance strangerTemplate (replicate 128 0) = 3 / 2"
    using sample_distances by simp
  have "facialAttendance (utc_env 1763020800000 None None) (facialRequest strangerTemplate)
          (sampleWorld [])
        = (Inl (FaceNotRecognized (Percent (toFixed1 (100 - 3 / 2 * 100)))), sampleWorld [])"
    using facialAttendance_rejected [of "facialRequest strangerTemplate" "sampleWorld []"
            sampleEmployee "replicate 128 0" "utc_env 1763020800000 None None"] r
    by (simp add: d l)
  then show ?thesis
    using l d by (simp add: toFixed1_def)
qed

section \<open>QR scans\<close>

lemma sample_generateQrCode:
  "generateQrCode (utc_env t a b) \<lparr>uid = ''E1'', urole = ''employee''\<rparr> ''E1'' (sampleWorld docs)
     = Inr (qrAt t (t + 43200000))"
  by (simp add: generateQrCode_def sampleWorld_def authorized_def qrAt_def utc_env_def)

lemma scanQrCode_reaches_freshness:
  assumes "validateScanQr req" and "qrData req = Parsed p" and "qr_employeeId p = Some e"
    and "e \<noteq> []" and "authorized (user req) e" and "map_of (employees w) e = Some emp"
    and "body_entryTime req = Some t"
  shows "scanQrCode env req w =
           (if qrExpired env (qr_timestamp p)
            then (Inl ExpiredQrCode,
                  sendEmailAndNotify w (email emp) ''Expired QR Code Attempt'' (Some ''expired_qr''))
            else locateAndCreate env w emp e t (coordinates req) ''qr'')"
  using assms by (simp add: scanQrCode_def isValidFirebaseId_def)

lemma scanQrCode_expired_no_success:
  assumes "qrData req = Parsed p" and "qrExpired env (qr_timestamp p)"
  shows "isl (fst (scanQrCode env req w)) \<and>
         attendanceDocs (snd (scanQrCode env req w)) = attendanceDocs w"
  using assms
  by (auto simp: scanQrCode_def sendEmailAndNotify_def split: option.splits)

lemma scanQrCode_fresh_not_expired:
  assumes "qrData req = Parsed p" and "\<not> qrExpired env (qr_timestamp p)"
  shows "fst (scanQrCode env req w) \<noteq> Inl ExpiredQrCode"
  using assms
  by (auto simp: scanQrCode_def split: option.splits dest: locateAndCreate_failure)

text \<open>
  C6. For a QR scan whose payload decodes and carries the issue time
  \<open>issuedAt\<close>: when \<open>now - issuedAt\<close> is at most five minutes the scan is
  not rejected as expired; when it is more than five minutes the scan is never
  accepted and no attendance record is created, and the answer is "Invalid or
  expired QR code" whenever the checks made before the freshness check pass
  (valid request, employee id in the payload, authorised requester, known
  employee).
\<close>

theorem scanQrCode_freshness:
  assumes "qrData req = Parsed p" and "qr_timestamp p = Some issuedAt"
  shows "(now env - issuedAt \<le> 5 * 60 * 1000 \<longrightarrow>
            fst (scanQrCode env req w) \<noteq> Inl ExpiredQrCode) \<and>
         (now env - issuedAt > 5 * 60 * 1000 \<longrightarrow>
            isl (fst (scanQrCode env req w)) \<and>
            attendanceDocs (snd (scanQrCode env req w)) = attendanceDocs w \<and>
            (validateScanQr req \<and> qr_employeeId p = Some e \<and> e \<noteq> [] \<and>
             authorized (user req) e \<and> map_of (employees w) e = Some emp \<longrightarrow>
               fst (scanQrCode env req w) = Inl ExpiredQrCode))"
proof (intro conjI impI)
  assume "now env - issuedAt \<le> 5 * 60 * 1000"
  then have "\<not> qrExpired env (qr_timestamp p)"
    using assms(2) by (simp add: qrExpired_def)
  then show "fst (scanQrCode env req w) \<noteq> Inl ExpiredQrCode"
    using scanQrCode_fresh_not_expired [OF assms(1)] by simp
next
  assume "now env - issuedAt > 5 * 60 * 1000"
  then have x: "qrExpired env (qr_timestamp p)"
    using assms(2) by (simp add: qrExpired_def)
  from scanQrCode_expired_no_success [OF assms(1) x]
  show "isl (fst (scanQrCode env req w))"
    and "attendanceDocs (snd (scanQrCode env req w)) = attendanceDocs w"
    by simp_all
  assume h: "validateScanQr req \<and> qr_employeeId p = Some e \<and> e \<noteq> [] \<and>
      authorized (user req) e \<and> map_of (employees w) e = Some emp"
  then obtain t where "body_entryTime req = Some t"
    by (auto simp: validateScanQr_def)
  with h x assms(1) show "fst (scanQrCode env req w) = Inl ExpiredQrCode"
    by (simp add: scanQrCode_reaches_freshness)
qed

theorem scanQrCode_freshness_witness:
  "fst (scanQrCode (utc_env 1763020800000 None None)
          (scanRequest (qrAt 1763020800000 1763064000000)) (sampleWorld []))
     = Inr (0, attendanceData (utc_env 1763020800000 None None) ''E1'' 1763020800000 office ''qr'') \<and>
   fst (scanQrCode (utc_env 1763020800000 None None)
          (scanRequest (qrAt 1763020500000 1763063700000)) (sampleWorld []))
     \<noteq> Inl ExpiredQrCode \<and>
   fst (scanQrCode (utc_env 1763020800000 None None)
          (scanRequest (qrAt 1763020440000 1763063640000)) (sampleWorld []))
     = Inl ExpiredQrCode \<and>
   attendanceDocs (snd (scanQrCode (utc_env 1763020800000 None None)
          (scanRequest (qrAt 1763020440000 1763063640000)) (sampleWorld []))) = []"
proof -
  let ?env = "utc_env 1763020800000 None None"
  have q: "qrData (scanRequest (qrAt i x)) = Parsed (qrAt i x)" for i x
    by (simp add: scanRequest_def)
  have s: "qr_timestamp (qrAt i x) = Some i" for i x
    by (simp add: qrAt_def)
  have n: "now ?env = 1763020800000"
    by (simp add: utc_env_def)
  have v: "validateScanQr (scanRequest (qrAt i x))" for i x
    by (simp add: validateScanQr_def scanRequest_def office_def)
  have a: "authorized (user (scanRequest (qrAt i x))) ''E1''" for i x
    by (simp add: authorized_def scanRequest_def)
  have m: "map_of (employees (sampleWorld [])) ''E1'' = Some sampleEmployee"
    by (simp add: sampleWorld_def)
  have e: "qr_employeeId (qrAt i x) = Some ''E1''" for i x
    by (simp add: qrAt_def)
  have b: "body_entryTime (scanRequest (qrAt i x)) = Some 1763020800000" for i x
    by (simp add: scanRequest_def)
  have "scanQrCode ?env (scanRequest (qrAt 1763020800000 1763064000000)) (sampleWorld [])
          = locateAndCreate ?env (sampleWorld []) sampleEmployee ''E1'' 1763020800000 office ''qr''"
    using scanQrCode_reaches_freshness [OF v q e _ a m b, where env = ?env]
    by (simp add: qrExpired_def s n scanRequest_def)
  then have g: "fst (scanQrCode ?env (scanRequest (qrAt 1763020800000 1763064000000)) (sampleWorld []))
     = Inr (0, attendanceData ?env ''E1'' 1763020800000 office ''qr'')"
    using locateAndCreate_inside [OF office_accepted, of 1763020800000 None None "sampleWorld []"
            sampleEmployee "''E1''" 1763020800000 "''qr''"]
    by (simp add: sampleWorld_def)
  show ?thesis
    using scanQrCode_freshness [OF q s, of ?env 1763020500000 1763063700000 "sampleWorld []"]
          scanQrCode_freshness [OF q s, of ?env 1763020440000 1763063640000 "sampleWorld []"
            "''E1''" sampleEmployee]
          g n v a m
    by (simp add: qrAt_def sampleWorld_def)
qed

text \<open>
  C10. \<open>scanQrCode\<close> never reads the \<open>expiresAt\<close> field: two scan requests
  that differ only in that field of the payload get the same answer and leave the
  same store, and a payload whose \<open>expiresAt\<close> is already in the past is
  accepted, and its record created, when its timestamp is within five minutes of
  now and the other checks pass.
\<close>

theorem scanQrCode_ignores_expiresAt:
  assumes "qrData req = Parsed p"
  shows "scanQrCode env (req\<lparr>qrData := Parsed (p\<lparr>qr_expiresAt := x\<rparr>)\<rparr>) w = scanQrCode env req w \<and>
         (validateScanQr req \<and> qr_employeeId p = Some e \<and> e \<noteq> [] \<and>
          authorized (user req) e \<and> map_of (employees w) e = Some emp \<and>
          locationDistance env (coordinates req) \<le> allowedRadius env \<and>
          qr_timestamp p = Some issuedAt \<and> now env - issuedAt \<le> 5 * 60 * 1000 \<and>
          qr_expiresAt p = Some expiry \<and> expiry < now env \<longrightarrow>
            \<not> isl (fst (scanQrCode env req w)) \<and>
            length (attendanceDocs (snd (scanQrCode env req w))) = length (attendanceDocs w) + 1)"
proof (intro conjI impI)
  show "scanQrCode env (req\<lparr>qrData := Parsed (p\<lparr>qr_expiresAt := x\<rparr>)\<rparr>) w = scanQrCode env req w"
    using assms by (auto simp: scanQrCode_def validateScanQr_def split: option.splits)
next
  assume h: "validateScanQr req \<and> qr_employeeId p = Some e \<and> e \<noteq> [] \<and>
          authorized (user req) e \<and> map_of (employees w) e = Some emp \<and>
          locationDistance env (coordinates req) \<le> allowedRadius env \<and>
          qr_timestamp p = Some issuedAt \<and> now env - issuedAt \<le> 5 * 60 * 1000 \<and>
          qr_expiresAt p = Some expiry \<and> expiry < now env"
  then obtain t where t: "body_entryTime req = Some t"
    by (auto simp: validateScanQr_def)
  from h have f: "\<not> qrExpired env (qr_timestamp p)"
    by (simp add: qrExpired_def)
  from h t f assms have r: "scanQrCode env req w = locateAndCreate env w emp e t (coordinates req) ''qr''"
    by (simp add: scanQrCode_reaches_freshness)
  from h have i: "locationDistance env (coordinates req) \<le> allowedRadius env" by simp
  show "\<not> isl (fst (scanQrCode env req w))"
    and "length (attendanceDocs (snd (scanQrCode env req w))) = length (attendanceDocs w) + 1"
    using r locateAndCreate_inside [OF i, of w emp e t "''qr''"] by simp_all
qed

theorem scanQrCode_ignores_expiresAt_witness:
  "scanQrCode (utc_env 1763020800000 None None)
     (scanRequest (qrAt 1763020740000 1762977540000)) (sampleWorld [])
   = scanQrCode (utc_env 1763020800000 None None)
     (scanRequest (qrAt 1763020740000 1763063940000)) (sampleWorld []) \<and>
   \<not> isl (fst (scanQrCode (utc_env 1763020800000 None None)
     (scanRequest (qrAt 1763020740000 1762977540000)) (sampleWorld []))) \<and>
   length (attendanceDocs (snd (scanQrCode (utc_env 1763020800000 None None)
     (scanRequest (qrAt 1763020740000 1762977540000)) (sampleWorld [])))) = 1"
proof -
  let ?env = "utc_env 1763020800000 None None"
  let ?req = "scanRequest (qrAt 1763020740000 1762977540000)"
  have q: "qrData ?req = Parsed (qrAt 1763020740000 1762977540000)"
    by (simp add: scanRequest_def)
  have u: "?req\<lparr>qrData := Parsed ((qrAt 1763020740000 1762977540000)\<lparr>qr_expiresAt := Some 1763063940000\<rparr>)\<rparr>
            = scanRequest (qrAt 1763020740000 1763063940000)"
    by (simp add: scanRequest_def qrAt_def)
  have v: "validateScanQr ?req"
    by (simp add: validateScanQr_def scanRequest_def office_def)
  have a: "authorized (user ?req) ''E1''"
    by (simp add: authorized_def scanRequest_def)
  have m: "map_of (employees (sampleWorld [])) ''E1'' = Some sampleEmployee"
    by (simp add: sampleWorld_def)
  have c: "coordinates ?req = office"
    by (simp add: scanRequest_def)
  show ?thesis
    using scanQrCode_ignores_expiresAt [OF q, of ?env "Some 1763063940000" "sampleWorld []"
            "''E1''" sampleEmployee 1763020740000 1762977540000]
          u v a m c office_accepted [of 1763020800000 None None]
    by (simp add: qrAt_def sampleWorld_def) (simp add: utc_env_def)
qed

section \<open>Entries while a session is open\<close>

lemma map_snd_filter_enumerate:
  "map snd (filter (\<lambda>(i, a). P a) (enumerate n xs)) = filter P xs"
  by (induction xs arbitrary: n) simp_all

lemma map_snd_queryByEmployee:
  "map snd (queryByEmployee w e) = filter (\<lambda>a. employeeId a = e) (attendanceDocs w)"
  by (simp add: queryByEmployee_def map_snd_filter_enumerate)

lemma hasOpenAttendance_iff:
  "hasOpenAttendance (queryByEmployee w e) \<longleftrightarrow> openSessions w e \<noteq> []"
proof -
  have "hasOpenAttendance docs \<longleftrightarrow> filter (\<lambda>a. exitTime a = None) (map snd docs) \<noteq> []"
    for docs
    by (force simp: hasOpenAttendance_def list_ex_iff filter_empty_conv)
  then have "hasOpenAttendance (queryByEmployee w e) \<longleftrightarrow>
      filter (\<lambda>a. exitTime a = None) (filter (\<lambda>a. employeeId a = e) (attendanceDocs w)) \<noteq> []"
    by (simp only: map_snd_queryByEmployee)
  then show ?thesis
    by (auto simp: openSessions_def filter_empty_conv)
qed

lemma recordAttendance_rejects_open:
  assumes "validateRecordAttendance req"
    and "map_of (employees w) (body_employeeId req) = Some emp"
    and "authorized (user req) (body_employeeId req)"
    and "eq_query_error env = None"
    and "openSessions w (body_employeeId req) \<noteq> []"
  shows "recordAttendance env req w = (Inl OpenAttendanceExists, w)"
  using assms
  by (auto simp: recordAttendance_def validateRecordAttendance_def hasOpenAttendance_iff)

lemma afterManualEntry_eq:
  "fst (recordAttendance (utc_env 1763028000000 None None) entryRequest (sampleWorld []))
     = Inr (0, attendanceData (utc_env 1763028000000 None None) ''E1'' 1763028000000 office ''manual'') \<and>
   afterManualEntry =
     \<lparr>employees = [(''E1'', sampleEmployee)],
      attendanceDocs = [attendanceData (utc_env 1763028000000 None None) ''E1'' 1763028000000 office ''manual''],
      outbox = [\<lparr>recipient = ''e1@example.com'', subject = ''Late Attendance Notification'',
                 kind = Some ''late_arrival''\<rparr>]\<rparr>"
proof -
  have "recordAttendance (utc_env 1763028000000 None None) entryRequest (sampleWorld [])
          = locateAndCreate (utc_env 1763028000000 None None) (sampleWorld []) sampleEmployee
              ''E1'' 1763028000000 office ''manual''"
    by (simp add: recordAttendance_def validateRecordAttendance_def entryRequest_def office_def
        sampleWorld_def authorized_def utc_env_def hasOpenAttendance_def queryByEmployee_def)
  then show ?thesis
    using office_accepted [of 1763028000000 None None]
    by (simp add: afterManualEntry_def locateAndCreate_def Let_def addAttendance_def
        sendEmailAndNotify_def sampleWorld_def sampleEmployee_def)
       (simp add: utc_env_def utc_getHours_def)
qed

lemma afterManualEntry_manual:
  "recordAttendance (utc_env 1763028000000 None None) entryRequest afterManualEntry
     = (Inl OpenAttendanceExists, afterManualEntry)"
  by (simp add: afterManualEntry_eq recordAttendance_def validateRecordAttendance_def
      entryRequest_def office_def authorized_def hasOpenAttendance_def queryByEmployee_def
      attendanceData_def) (simp add: utc_env_def)

lemma afterManualEntry_scan:
  "scanQrCode (utc_env 1763028000000 None None)
     (scanRequest (qrAt 1763028000000 1763071200000)) afterManualEntry
   = locateAndCreate (utc_env 1763028000000 None None) afterManualEntry sampleEmployee
       ''E1'' 1763020800000 office ''qr''"
  by (simp add: afterManualEntry_eq scanQrCode_def validateScanQr_def scanRequest_def qrAt_def
      office_def isValidFirebaseId_def authorized_def qrExpired_def) (simp add: utc_env_def)

lemma afterManualEntry_facial:
  "facialAttendance (utc_env 1763028000000 None None)
     (facialRequest (replicate 128 0)) afterManualEntry
   = locateAndCreate (utc_env 1763028000000 None None) afterManualEntry sampleEmployee
       ''E1'' 1763020800000 office ''facial''"
  by (simp add: afterManualEntry_eq facialAttendance_def validateFacialAttendance_def
      facialRequest_def office_def authorized_def sampleEmployee_def calculateDistance_same
      notRecognized_def)

text \<open>
  C1. The manual handler refuses an entry while the employee has an open record
  (when its query for the employee's records returns). The QR and the facial
  handlers make no such check. From the empty store, a manual entry of the sample
  employee opens a session; then a second manual entry is answered "You already
  have an open attendance entry", but a fresh QR scan, and likewise a matching
  face, is accepted and leaves two records of the employee without exit time.
\<close>

theorem entry_with_open_session:
  "\<not> isl (fst (recordAttendance (utc_env 1763028000000 None None) entryRequest (sampleWorld []))) \<and>
   length (openSessions afterManualEntry ''E1'') = 1 \<and>
   recordAttendance (utc_env 1763028000000 None None) entryRequest afterManualEntry
     = (Inl OpenAttendanceExists, afterManualEntry) \<and>
   \<not> isl (fst (scanQrCode (utc_env 1763028000000 None None)
          (scanRequest (qrAt 1763028000000 1763071200000)) afterManualEntry)) \<and>
   length (openSessions (snd (scanQrCode (utc_env 1763028000000 None None)
          (scanRequest (qrAt 1763028000000 1763071200000)) afterManualEntry)) ''E1'') = 2 \<and>
   \<not> isl (fst (facialAttendance (utc_env 1763028000000 None None)
          (facialRequest (replicate 128 0)) afterManualEntry)) \<and>
   length (openSessions (snd (facialAttendance (utc_env 1763028000000 None None)
          (facialRequest (replicate 128 0)) afterManualEntry)) ''E1'') = 2"
  using locateAndCreate_inside [OF office_accepted, of 1763028000000 None None
          afterManualEntry sampleEmployee "''E1''" 1763020800000 "''qr''"]
        locateAndCreate_inside [OF office_accepted, of 1763028000000 None None
          afterManualEntry sampleEmployee "''E1''" 1763020800000 "''facial''"]
  by (simp add: afterManualEntry_manual afterManualEntry_scan afterManualEntry_facial
      openSessions_def)
     (simp add: afterManualEntry_eq attendanceData_def)

section \<open>Reports when the composite index is missing\<close>

text \<open>
  C2 (as amended). When \<open>getPresenceReport\<close> has a time window and the query by
  employee and entry-time range throws an error whose message includes
  \<open>index\<close>, the handler issues no broader query and builds no report: it
  answers with status 500, "Database index required", and the message of the
  store's error.
\<close>

theorem getPresenceReport_index_error:
  assumes "validateReport q"
    and "startDate q = Date sd"
    and "map_of (employees w) (param_employeeId q) = Some emp"
    and "period q = ''weekly'' \<or> period q = ''monthly'' \<or> endDate q = Date ed"
    and "range_query_error env = Some msg"
    and "includes_str msg ''index''"
  shows "getPresenceReport env q w = Inl (DatabaseIndexRequired msg) \<and>
         http_status (DatabaseIndexRequired msg) = 500"
  using assms
  by (auto simp: getPresenceReport_def periodWindow_def Let_def)

theorem getPresenceReport_index_error_witness:
  "getPresenceReport (utc_env 1763028000000 None (Some indexMessage)) monthlyQuery
     (sampleWorld [closedRecord, openRecord]) = Inl (DatabaseIndexRequired indexMessage)"
proof -
  have v: "validateReport monthlyQuery"
    by (simp add: validateReport_def monthlyQuery_def)
  have s: "startDate monthlyQuery = Date 1762992000000"
    by (simp add: monthlyQuery_def)
  have m: "map_of (employees (sampleWorld [closedRecord, openRecord]))
             (param_employeeId monthlyQuery) = Some sampleEmployee"
    by (simp add: sampleWorld_def monthlyQuery_def)
  have p: "period monthlyQuery = ''weekly'' \<or> period monthlyQuery = ''monthly'' \<or>
           endDate monthlyQuery = Date 0"
    by (simp add: monthlyQuery_def)
  have r: "range_query_error (utc_env 1763028000000 None (Some indexMessage)) = Some indexMessage"
    by (simp add: utc_env_def)
  have i: "includes_str indexMessage ''index''"
    by (simp add: indexMessage_def)
  show ?thesis
    using getPresenceReport_index_error [OF v s m p r i] by simp
qed

text \<open>
  C2 as stated fails: with the index missing, the weekly report of the sample
  employee is the 500 answer, not a report.
\<close>

theorem getPresenceReport_index_error_counterexample:
  "getPresenceReport (utc_env 1763028000000 None (Some indexMessage)) weeklyQuery
     (sampleWorld [openRecord]) = Inl (DatabaseIndexRequired indexMessage) \<and>
   http_status (DatabaseIndexRequired indexMessage) = 500"
  by (simp add: getPresenceReport_def validateReport_def weeklyQuery_def sampleWorld_def
      periodWindow_def utc_env_def indexMessage_def Let_def)

lemma tally_lateDays: "lateDays (tally env r a) = lateDays r + lateArrival env a"
  by (simp add: tally_def lateArrival_def Let_def split: option.splits)

lemma foldl_tally_lateDays:
  "lateDays (foldl (tally env) r rs) = lateDays r + sum_list (map (lateArrival env) rs)"
  by (induction rs arbitrary: r) (simp_all add: tally_lateDays)

lemma buildReport_lateDays:
  "lateDays (buildReport env e p s f rs) = sum_list (map (lateArrival env) rs)"
  by (simp add: buildReport_def foldl_tally_lateDays)

lemma tally_labels:
  "report_employeeId (tally env r a) = report_employeeId r \<and>
   report_period (tally env r a) = report_period r \<and>
   report_startDate (tally env r a) = report_startDate r \<and>
   report_endDate (tally env r a) = report_endDate r"
  by (simp add: tally_def Let_def split: option.splits)

lemma foldl_tally_labels:
  "report_employeeId (foldl (tally env) r rs) = report_employeeId r \<and>
   report_period (foldl (tally env) r rs) = report_period r \<and>
   report_startDate (foldl (tally env) r rs) = report_startDate r \<and>
   report_endDate (foldl (tally env) r rs) = report_endDate r"
  by (induction rs arbitrary: r) (simp_all add: tally_labels)

lemma buildReport_labels:
  "report_employeeId (buildReport env e p s f rs) = e \<and>
   report_period (buildReport env e p s f rs) = p \<and>
   report_startDate (buildReport env e p s f rs) = s \<and>
   report_endDate (buildReport env e p s f rs) = f"
  by (simp add: buildReport_def foldl_tally_labels)

lemma employeeReport_fallback:
  assumes "range_query_error env = Some msg" and "includes_str msg ''index''"
    and "eq_query_error env = None"
  shows "employeeReport env q w ie = Inr (unfilteredReport env q w ie)"
  using assms
  by (cases ie)
     (auto simp: employeeReport_def unfilteredReport_def queryWithFallback_def Let_def
        map_snd_queryByEmployee split: option.splits prod.splits)

lemma forEmployees_all_Inr:
  "(\<And>x. x \<in> set xs \<Longrightarrow> f x = Inr (g x)) \<Longrightarrow> forEmployees f xs = Inr (map g xs)"
  by (induction xs) simp_all

text \<open>
  C3 (as amended). When the query by employee and entry-time range throws an index
  error and the query by employee alone returns, every report of
  \<open>getAllPresenceReports\<close> aggregates all the attendance records of its
  employee, whatever their entry time: \<open>totalDays\<close>, \<open>totalHours\<close> and
  \<open>lateDays\<close> are taken over the unfiltered records of the broader query. The
  report keeps the period and the dates of the request: the start and end of the
  window when a period or a date is given, the hire date and today when none is.
\<close>

theorem getAllPresenceReports_fallback_unfiltered:
  assumes "range_query_error env = Some msg" and "includes_str msg ''index''"
    and "eq_query_error env = None"
  shows "getAllPresenceReports env q w = Inr (map (unfilteredReport env q w) (employees w)) \<and>
         totalDays (unfilteredReport env q w (eid, emp)) =
           sum_list (map daysPresent (filter (\<lambda>a. employeeId a = eid) (attendanceDocs w))) \<and>
         totalHours (unfilteredReport env q w (eid, emp)) =
           sum_list (map hoursWorked (filter (\<lambda>a. employeeId a = eid) (attendanceDocs w))) \<and>
         lateDays (unfilteredReport env q w (eid, emp)) =
           sum_list (map (lateArrival env) (filter (\<lambda>a. employeeId a = eid) (attendanceDocs w))) \<and>
         report_employeeId (unfilteredReport env q w (eid, emp)) = eid \<and>
         report_period (unfilteredReport env q w (eid, emp)) = reportPeriod q \<and>
         ((all_period q \<noteq> [] \<or> all_startDate q \<noteq> None \<or> all_endDate q \<noteq> None) \<and>
          employeeWindow env q emp = Some (start, finish) \<longrightarrow>
            report_startDate (unfilteredReport env q w (eid, emp)) = Some start \<and>
            report_endDate (unfilteredReport env q w (eid, emp)) = Some finish) \<and>
         (all_period q = [] \<and> all_startDate q = None \<and> all_endDate q = None \<and>
          (case hireDate emp of Some h \<Rightarrow> Some h | None \<Rightarrow> emp_createdAt emp) = Some hired \<longrightarrow>
            report_startDate (unfilteredReport env q w (eid, emp)) = Some hired \<and>
            report_endDate (unfilteredReport env q w (eid, emp)) = Some (now env))"
proof -
  have "getAllPresenceReports env q w = Inr (map (unfilteredReport env q w) (employees w))"
    unfolding getAllPresenceReports_def
    by (rule forEmployees_all_Inr) (rule employeeReport_fallback [OF assms])
  moreover have "(all_period q \<noteq> [] \<or> all_startDate q \<noteq> None \<or> all_endDate q \<noteq> None) \<and>
          employeeWindow env q emp = Some (start, finish) \<longrightarrow>
            report_startDate (unfilteredReport env q w (eid, emp)) = Some start \<and>
            report_endDate (unfilteredReport env q w (eid, emp)) = Some finish"
    by (auto simp: unfilteredReport_def buildReport_labels reportDates_def)
  moreover have "all_period q = [] \<and> all_startDate q = None \<and> all_endDate q = None \<and>
          (case hireDate emp of Some h \<Rightarrow> Some h | None \<Rightarrow> emp_createdAt emp) = Some hired \<longrightarrow>
            report_startDate (unfilteredReport env q w (eid, emp)) = Some hired \<and>
            report_endDate (unfilteredReport env q w (eid, emp)) = Some (now env)"
    by (auto simp: unfilteredReport_def buildReport_labels reportDates_def)
  ultimately show ?thesis
    by (simp add: unfilteredReport_def buildReport_totalDays buildReport_totalHours
        buildReport_lateDays buildReport_labels)
qed

theorem getAllPresenceReports_fallback_unfiltered_witness:
  "getAllPresenceReports (utc_env 1763028000000 None (Some indexMessage)) novemberQuery
     (sampleWorld [closedRecord, openRecord])
     = Inr [unfilteredReport (utc_env 1763028000000 None (Some indexMessage)) novemberQuery
              (sampleWorld [closedRecord, openRecord]) (''E1'', sampleEmployee)] \<and>
   totalDays (unfilteredReport (utc_env 1763028000000 None (Some indexMessage)) novemberQuery
              (sampleWorld [closedRecord, openRecord]) (''E1'', sampleEmployee)) = 2 \<and>
   totalHours (unfilteredReport (utc_env 1763028000000 None (Some indexMessage)) novemberQuery
              (sampleWorld [closedRecord, openRecord]) (''E1'', sampleEmployee)) = 8 \<and>
   lateDays (unfilteredReport (utc_env 1763028000000 None (Some indexMessage)) novemberQuery
              (sampleWorld [closedRecord, openRecord]) (''E1'', sampleEmployee)) = 1 \<and>
   report_startDate (unfilteredReport (utc_env 1763028000000 None (Some indexMessage))
              novemberQuery (sampleWorld [closedRecord, openRecord]) (''E1'', sampleEmployee))
     = Some 1761955200000 \<and>
   report_endDate (unfilteredReport (utc_env 1763028000000 None (Some indexMessage))
              novemberQuery (sampleWorld [closedRecord, openRecord]) (''E1'', sampleEmployee))
     = Some 1764547200000"
proof -
  let ?env = "utc_env 1763028000000 None (Some indexMessage)"
  have r: "range_query_error ?env = Some indexMessage"
    by (simp add: utc_env_def)
  have i: "includes_str indexMessage ''index''"
    by (simp add: indexMessage_def)
  have e: "eq_query_error ?env = None"
    by (simp add: utc_env_def)
  have p: "all_period novemberQuery \<noteq> [] \<or> all_startDate novemberQuery \<noteq> None \<or>
           all_endDate novemberQuery \<noteq> None"
    by (simp add: novemberQuery_def)
  have w: "employeeWindow ?env novemberQuery sampleEmployee = Some (1761955200000, 1764547200000)"
    by (simp add: employeeWindow_def periodWindow_def novemberQuery_def)
  have l: "lateArrival ?env closedRecord = 0 \<and> lateArrival ?env openRecord = 1"
    by (simp add: lateArrival_def closedRecord_def openRecord_def utc_env_def utc_getHours_def)
  show ?thesis
    using getAllPresenceReports_fallback_unfiltered [OF r i e, where q = novemberQuery
            and w = "sampleWorld [closedRecord, openRecord]" and eid = "''E1''"
            and emp = sampleEmployee and start = 1761955200000 and finish = 1764547200000] p w l
    by (simp add: sampleWorld_def closedRecord_def openRecord_def daysPresent_def
        hoursWorked_def)
qed

text \<open>
  C3 as stated fails: asked for November 2025 with the index missing, the report
  of the sample employee counts the record of June as well, 2 days and 8 hours.
\<close>

theorem getAllPresenceReports_fallback_counterexample:
  "getAllPresenceReports (utc_env 1763028000000 None (Some indexMessage)) novemberQuery
     (sampleWorld [closedRecord, openRecord])
     = Inr [\<lparr>report_employeeId = ''E1'', report_period = ''all-time'',
              report_startDate = Some 1761955200000, report_endDate = Some 1764547200000,
              totalDays = 2, totalHours = 8, lateDays = 1\<rparr>] \<and>
   \<not> inWindow 1761955200000 1764547200000 closedRecord \<and>
   inWindow 1761955200000 1764547200000 openRecord"
  by (simp add: getAllPresenceReports_def employeeReport_def employeeWindow_def periodWindow_def
      reportDates_def reportPeriod_def
      novemberQuery_def sampleWorld_def queryWithFallback_def utc_env_def indexMessage_def
      queryByEmployee_def buildReport_def tally_def closedRecord_def openRecord_def
      inWindow_def utc_getHours_def Let_def)

end
